theory Spec2Isabelle
  imports Main "HOL-Library.Word"
begin

section \<open>The log storage (storage/storage.go)\<close>

text \<open>
  A Go \<^verbatim>\<open>error\<close> value is \<open>error option\<close>: \<open>None\<close> is \<^verbatim>\<open>nil\<close>, and
  \<open>Some (Error msg)\<close> is \<^verbatim>\<open>errors.New(msg)\<close>. A \<^verbatim>\<open>panic(msg)\<close> is the
  value \<open>Inl (Panic msg)\<close> of a result type \<open>panic + 'a\<close>.
\<close>

datatype error = Error string

datatype panic = Panic string

text \<open>\<^verbatim>\<open>type memStorage struct { data []string }\<close>\<close>

record memStorage =
  data :: "string list"

text \<open>
  The methods have a pointer receiver and mutate \<^verbatim>\<open>s.data\<close>; the model returns the
  updated storage together with the method's own results.
\<close>

definition NewMemStorage :: memStorage where
  "NewMemStorage = \<lparr>data = []\<rparr>"

definition AppendLog :: "string \<Rightarrow> memStorage \<Rightarrow> memStorage \<times> error option" where
  "AppendLog d s = (s\<lparr>data := data s @ [d]\<rparr>, None)"

definition Lookup :: "memStorage \<Rightarrow> string list \<times> error option" where
  "Lookup s = (data s, None)"

definition Close :: "memStorage \<Rightarrow> error option" where
  "Close s = None"

definition Cleanup :: "memStorage \<Rightarrow> memStorage \<times> error option" where
  "Cleanup s = (s\<lparr>data := []\<rparr>, None)"

definition LastLog :: "memStorage \<Rightarrow> string \<times> error option" where
  "LastLog s =
     (let sizeOfLog = length (data s) in
      if sizeOfLog = 0 then ('''', Some (Error ''LogData is empty''))
      else (let lastLog = data s ! (sizeOfLog - 1) in (lastLog, None)))"

text \<open>Appending a sequence of records one after the other, as repeated calls do.\<close>

fun AppendLogs :: "string list \<Rightarrow> memStorage \<Rightarrow> memStorage" where
  "AppendLogs [] s = s"
| "AppendLogs (d # ds) s = AppendLogs ds (fst (AppendLog d s))"

section \<open>Storage selection\<close>

text \<open>
  \<^verbatim>\<open>type LogProvider string\<close> with the two constants \<^verbatim>\<open>Memory\<close> and
  \<^verbatim>\<open>Kafka\<close>. Any string is a value of the type.
\<close>

type_synonym LogProvider = string

definition Memory :: LogProvider where
  "Memory = ''memory''"

definition Kafka :: LogProvider where
  "Kafka = ''kafka''"

definition GetLogStorage :: "LogProvider \<Rightarrow> panic + memStorage" where
  "GetLogStorage t =
     (if t = Memory then Inr NewMemStorage
      else Inl (Panic ''unsupported provider''))"

section \<open>The saga log entries\<close>

text \<open>
  The seven entry kinds. The \<^verbatim>\<open>Log\<close> struct itself is declared outside the given
  sources; its fields are those the saga code sets and reads (\<^verbatim>\<open>Type\<close>,
  \<^verbatim>\<open>SubTxID\<close>, \<^verbatim>\<open>Time\<close>, \<^verbatim>\<open>Params\<close>). A field left out of a struct literal
  has Go's zero value: the empty string for \<^verbatim>\<open>SubTxID\<close> and nil (\<open>None\<close>) for
  \<^verbatim>\<open>Params\<close>. The parameter representation is the type variable \<open>'p\<close>.
\<close>

datatype LogType =
  SagaStart | ActionStart | ActionEnd | SagaAbort | CompensateStart | CompensateEnd | SagaEnd

record 'p Log =
  Type :: LogType
  SubTxID :: string
  Time :: nat
  Params :: "'p option"

section \<open>Callables and their results\<close>

text \<open>
  The result of \<^verbatim>\<open>reflect.Value.Call\<close> is a slice of reflected values. Only
  \<^verbatim>\<open>IsNil\<close> is ever asked of them: it answers for a value of a kind that can be nil
  (interface, pointer, map, slice, chan, func) and panics for any other kind. The text of
  that panic, in which reflect names the kind, stands here as one fixed string.
\<close>

datatype Value = VNil | VNonNil | VPlain

definition IsNil :: "Value \<Rightarrow> panic + bool" where
  "IsNil v =
     (case v of
        VNil \<Rightarrow> Inr True
      | VNonNil \<Rightarrow> Inr False
      | VPlain \<Rightarrow> Inl (Panic ''reflect: call of reflect.Value.IsNil on non-nilable Value''))"

text \<open>
  A registered action or compensation is user code: called with the parameter list
  (the context first), it may change the world outside the saga (\<open>'w\<close>), return a list
  of values, or panic. Arguments are values of type \<open>'v\<close>.
\<close>

type_synonym ('v, 'w) Func = "'v list \<Rightarrow> 'w \<Rightarrow> panic + (Value list \<times> 'w)"

text \<open>
  A sub-transaction definition holds the two callables behind
  \<^verbatim>\<open>subTxDef.action.Call\<close> and \<^verbatim>\<open>subDef.compensate.Call\<close>.
\<close>

record ('v, 'w) subTxDefinition =
  actionCall :: "('v, 'w) Func"
  compensateCall :: "('v, 'w) Func"

record ('v, 'w) ExecutionCoordinator =
  subTxDefinitions :: "string \<rightharpoonup> ('v, 'w) subTxDefinition"

text \<open>
  Modelled from the spec: \<^verbatim>\<open>MustFindSubTxDef\<close> is declared outside the given
  sources. It returns the definition registered under the identifier and fails fatally
  if the identifier is unregistered.
\<close>

definition MustFindSubTxDef ::
  "('v, 'w) ExecutionCoordinator \<Rightarrow> string \<Rightarrow> panic + ('v, 'w) subTxDefinition" where
  "MustFindSubTxDef e subTxID =
     (case subTxDefinitions e subTxID of
        None \<Rightarrow> Inl (Panic ''SubTxID not found'')
      | Some d \<Rightarrow> Inr d)"

text \<open>
  The encoders and decoders of log entries and of parameters are declared outside the
  given sources, so they are parameters of the model, together with the wall clock: the
  k-th reading of \<^verbatim>\<open>time.Now()\<close> is \<open>clock E k\<close>. The functions whose names start
  with must, and the parameter codecs, can panic.
\<close>

record ('v, 'p, 'w) env =
  mustMarshal :: "'p Log \<Rightarrow> panic + string"
  mustUnmarshalLog :: "string \<Rightarrow> panic + 'p Log"
  MarshalParam :: "('v, 'w) ExecutionCoordinator \<Rightarrow> 'v list \<Rightarrow> panic + 'p"
  UnmarshalParam :: "('v, 'w) ExecutionCoordinator \<Rightarrow> 'p option \<Rightarrow> panic + 'v list"
  clock :: "nat \<Rightarrow> nat"

section \<open>The saga\<close>

text \<open>
  \<^verbatim>\<open>type Saga struct { id; logID; context; sec; storage }\<close>. The field
  \<^verbatim>\<open>storage\<close> points to the storage object that the methods mutate; the object is
  the \<open>storage\<close> component of the state below, and the other fields never change.
\<close>

record ('v, 'w) Saga =
  sagaId :: "64 word"
  logID :: string
  ctx :: 'v
  sec :: "('v, 'w) ExecutionCoordinator"

text \<open>
  Every invocation of a callable is recorded, in order, in the component \<open>calls\<close> of
  the state: it is a history of what was called with which parameters, and nothing reads
  it.
\<close>

datatype 'v call = ActionCall string "'v list" | CompensateCall string "'v list"

record ('v, 'w) state =
  storage :: memStorage
  world :: 'w
  tick :: nat
  calls :: "'v call list"

definition timeNow :: "('v, 'p, 'w) env \<Rightarrow> ('v, 'w) state \<Rightarrow> nat \<times> ('v, 'w) state" where
  "timeNow E st = (clock E (tick st), st\<lparr>tick := Suc (tick st)\<rparr>)"

text \<open>
  The statement pair that follows every entry's construction,
  \<^verbatim>\<open>err := s.GetLog().AppendLog(l.mustMarshal()); if err != nil { panic(msg) }\<close>.
\<close>

definition writeLog ::
  "string \<Rightarrow> ('v, 'p, 'w) env \<Rightarrow> 'p Log \<Rightarrow> ('v, 'w) state \<Rightarrow> panic + ('v, 'w) state" where
  "writeLog msg E l st =
     (case mustMarshal E l of
        Inl p \<Rightarrow> Inl p
      | Inr d \<Rightarrow>
          (case AppendLog d (storage st) of
             (sto, err) \<Rightarrow>
               if err \<noteq> None then Inl (Panic msg) else Inr (st\<lparr>storage := sto\<rparr>)))"

definition startSaga ::
  "('v, 'p, 'w) env \<Rightarrow> ('v, 'w) Saga \<Rightarrow> ('v, 'w) state \<Rightarrow> panic + ('v, 'w) state" where
  "startSaga E s st =
     (case timeNow E st of
        (t, st1) \<Rightarrow>
          writeLog ''Add logger Failure'' E
            \<lparr>Type = SagaStart, SubTxID = '''', Time = t, Params = None\<rparr> st1)"

definition isReturnError :: "Value list \<Rightarrow> panic + bool" where
  "isReturnError result =
     (if length result = 1 then
        (case IsNil (result ! 0) of
           Inl p \<Rightarrow> Inl p
         | Inr b \<Rightarrow> if \<not> b then Inr True else Inr False)
      else Inr False)"

text \<open>
  \<^verbatim>\<open>Abort\<close> and \<^verbatim>\<open>compensate\<close> call each other, without bound when a
  compensation keeps failing, so they take fuel: \<open>None\<close> is a run that did not return
  within the given depth of nested aborts. \<open>AbortLoop\<close> is the loop
  \<^verbatim>\<open>for i := len(logs) - 1; i >= 0; i--\<close> of \<^verbatim>\<open>Abort\<close>, with \<open>Suc i\<close> as its
  counter. \<^verbatim>\<open>compensate\<close> returns a Go error, which is always nil.
\<close>

fun Abort ::
    "('v, 'p, 'w) env \<Rightarrow> nat \<Rightarrow> ('v, 'w) Saga \<Rightarrow> ('v, 'w) state \<Rightarrow> (panic + ('v, 'w) state) option"
  and AbortLoop ::
    "('v, 'p, 'w) env \<Rightarrow> nat \<Rightarrow> ('v, 'w) Saga \<Rightarrow> string list \<Rightarrow> nat \<Rightarrow> ('v, 'w) state
      \<Rightarrow> (panic + ('v, 'w) state) option"
  and compensate ::
    "('v, 'p, 'w) env \<Rightarrow> nat \<Rightarrow> ('v, 'w) Saga \<Rightarrow> 'p Log \<Rightarrow> ('v, 'w) state
      \<Rightarrow> (panic + (error option \<times> ('v, 'w) state)) option"
where
  "Abort E 0 s st = None"
| "Abort E (Suc n) s st =
     (case Lookup (storage st) of
        (logs, err) \<Rightarrow>
          if err \<noteq> None then Some (Inl (Panic ''Abort Panic''))
          else
            (case timeNow E st of
               (t, st1) \<Rightarrow>
                 (case writeLog ''Add log Failure'' E
                         \<lparr>Type = SagaAbort, SubTxID = '''', Time = t, Params = None\<rparr> st1 of
                    Inl p \<Rightarrow> Some (Inl p)
                  | Inr st2 \<Rightarrow> AbortLoop E n s logs (length logs) st2)))"
| "AbortLoop E n s logs 0 st = Some (Inr st)"
| "AbortLoop E n s logs (Suc i) st =
     (let logData = logs ! i in
      case mustUnmarshalLog E logData of
        Inl p \<Rightarrow> Some (Inl p)
      | Inr logger \<Rightarrow>
          if Type logger = ActionStart then
            (case compensate E n s logger st of
               None \<Rightarrow> None
             | Some (Inl p) \<Rightarrow> Some (Inl p)
             | Some (Inr (err, st')) \<Rightarrow>
                 if err \<noteq> None then Some (Inl (Panic ''Compensate Failure..''))
                 else AbortLoop E n s logs i st')
          else AbortLoop E n s logs i st)"
| "compensate E n s tlog st =
     (case timeNow E st of
        (t, st1) \<Rightarrow>
          (case writeLog ''Add log Failure'' E
                  \<lparr>Type = CompensateStart, SubTxID = SubTxID tlog, Time = t, Params = None\<rparr>
                  st1 of
             Inl p \<Rightarrow> Some (Inl p)
           | Inr st2 \<Rightarrow>
               (case UnmarshalParam E (sec s) (Params tlog) of
                  Inl p \<Rightarrow> Some (Inl p)
                | Inr args \<Rightarrow>
                    (let params = ctx s # args in
                     case MustFindSubTxDef (sec s) (SubTxID tlog) of
                       Inl p \<Rightarrow> Some (Inl p)
                     | Inr subDef \<Rightarrow>
                         (case compensateCall subDef params (world st2) of
                            Inl p \<Rightarrow> Some (Inl p)
                          | Inr (result, w) \<Rightarrow>
                              (let st3 = st2\<lparr>world := w,
                                     calls := calls st2 @ [CompensateCall (SubTxID tlog) params]\<rparr>
                               in
                               case isReturnError result of
                                 Inl p \<Rightarrow> Some (Inl p)
                               | Inr failed \<Rightarrow>
                                   (case (if failed then Abort E n s st3 else Some (Inr st3)) of
                                      None \<Rightarrow> None
                                    | Some (Inl p) \<Rightarrow> Some (Inl p)
                                    | Some (Inr st4) \<Rightarrow>
                                        (case timeNow E st4 of
                                           (t', st5) \<Rightarrow>
                                             (case writeLog ''Add log Failure'' E
                                                     \<lparr>Type = CompensateEnd,
                                                      SubTxID = SubTxID tlog, Time = t',
                                                      Params = None\<rparr> st5 of
                                                Inl p \<Rightarrow> Some (Inl p)
                                              | Inr st6 \<Rightarrow> Some (Inr (None, st6)))))))))))"

definition ExecSub ::
  "('v, 'p, 'w) env \<Rightarrow> nat \<Rightarrow> ('v, 'w) Saga \<Rightarrow> string \<Rightarrow> 'v list \<Rightarrow> ('v, 'w) state
    \<Rightarrow> (panic + ('v, 'w) state) option" where
  "ExecSub E fuel s subTxID args st =
     (case MustFindSubTxDef (sec s) subTxID of
        Inl p \<Rightarrow> Some (Inl p)
      | Inr subTxDef \<Rightarrow>
          (case timeNow E st of
             (t, st1) \<Rightarrow>
               (case MarshalParam E (sec s) args of
                  Inl p \<Rightarrow> Some (Inl p)
                | Inr ps \<Rightarrow>
                    (case writeLog ''Add logger Failure'' E
                            \<lparr>Type = ActionStart, SubTxID = subTxID, Time = t, Params = Some ps\<rparr>
                            st1 of
                       Inl p \<Rightarrow> Some (Inl p)
                     | Inr st2 \<Rightarrow>
                         (let params = ctx s # args in
                          case actionCall subTxDef params (world st2) of
                            Inl p \<Rightarrow> Some (Inl p)
                          | Inr (result, w) \<Rightarrow>
                              (let st3 = st2\<lparr>world := w,
                                     calls := calls st2 @ [ActionCall subTxID params]\<rparr>
                               in
                               case isReturnError result of
                                 Inl p \<Rightarrow> Some (Inl p)
                               | Inr failed \<Rightarrow>
                                   if failed then Abort E fuel s st3
                                   else
                                     (case timeNow E st3 of
                                        (t', st4) \<Rightarrow>
                                          Some (writeLog ''Add logger Failure'' E
                                                  \<lparr>Type = ActionEnd, SubTxID = subTxID,
                                                   Time = t', Params = None\<rparr> st4))))))))"

definition EndSaga ::
  "('v, 'p, 'w) env \<Rightarrow> ('v, 'w) Saga \<Rightarrow> ('v, 'w) state \<Rightarrow> panic + ('v, 'w) state" where
  "EndSaga E s st =
     (case timeNow E st of
        (t, st1) \<Rightarrow>
          (case writeLog ''Add logger Failure'' E
                  \<lparr>Type = SagaEnd, SubTxID = '''', Time = t, Params = None\<rparr> st1 of
             Inl p \<Rightarrow> Inl p
           | Inr st2 \<Rightarrow>
               (case Cleanup (storage st2) of
                  (sto, err) \<Rightarrow>
                    if err \<noteq> None then Inl (Panic ''Clean up topic failure'')
                    else Inr (st2\<lparr>storage := sto\<rparr>))))"

section \<open>The test scenario\<close>

text \<open>The callables and variables of \<^verbatim>\<open>test/mem/saga_mem_test.go\<close>.\<close>

text \<open>
  The values the tests pass to \<^verbatim>\<open>ExecSub\<close>: the context, strings, ints and the
  \<^verbatim>\<open>*string\<close> of \<^verbatim>\<open>PTest1\<close>.
\<close>

datatype arg = Ctx | StrV string | IntV int | StrPtr "string option"

datatype FailureMode = OK | DeduceFail | DepositFail

text \<open>
  The package variables \<^verbatim>\<open>memDB\<close> and \<^verbatim>\<open>testMode\<close> are the world that the
  callables work on. Reading a key that a Go map does not hold gives 0.
\<close>

record testWorld =
  memDB :: "string \<rightharpoonup> int"
  testMode :: FailureMode

definition getDB :: "(string \<rightharpoonup> int) \<Rightarrow> string \<Rightarrow> int" where
  "getDB m k = (case m k of None \<Rightarrow> 0 | Some v \<Rightarrow> v)"

text \<open>
  \<^verbatim>\<open>fmt.Errorf(...)\<close> is a non-nil error (\<open>VNonNil\<close>) and \<^verbatim>\<open>return nil\<close> is a nil
  one (\<open>VNil\<close>). \<^verbatim>\<open>reflect.Value.Call\<close> panics when the parameters do not fit the
  function's signature; the text of that panic is reflect's own and stands here as one
  fixed string, which no statement below mentions. Go's \<^verbatim>\<open>int\<close> wraps around at 64
  bits; the balances are modelled as unbounded integers, and every balance in the
  statements below lies between -100 and 400.
\<close>

fun DeduceAccount :: "(arg, 'a testWorld_scheme) Func" where
  "DeduceAccount [Ctx, StrV account, IntV amount] w =
     (if testMode w = DeduceFail then Inr ([VNonNil], w)
      else Inr ([VNil], w\<lparr>memDB := (memDB w)(account \<mapsto> getDB (memDB w) account - amount)\<rparr>))"
| "DeduceAccount params w = Inl (Panic ''reflect: Call using wrong arguments'')"

fun CompensateDeduce :: "(arg, 'a testWorld_scheme) Func" where
  "CompensateDeduce [Ctx, StrV account, IntV amount] w =
     Inr ([VNil], w\<lparr>memDB := (memDB w)(account \<mapsto> getDB (memDB w) account + amount)\<rparr>)"
| "CompensateDeduce params w = Inl (Panic ''reflect: Call using wrong arguments'')"

fun DepositAccount :: "(arg, 'a testWorld_scheme) Func" where
  "DepositAccount [Ctx, StrV account, IntV amount] w =
     (if testMode w = DepositFail then Inr ([VNonNil], w)
      else Inr ([VNil], w\<lparr>memDB := (memDB w)(account \<mapsto> getDB (memDB w) account + amount)\<rparr>))"
| "DepositAccount params w = Inl (Panic ''reflect: Call using wrong arguments'')"

fun CompensateDeposit :: "(arg, 'a testWorld_scheme) Func" where
  "CompensateDeposit [Ctx, StrV account, IntV amount] w =
     Inr ([VNil], w\<lparr>memDB := (memDB w)(account \<mapsto> getDB (memDB w) account - amount)\<rparr>)"
| "CompensateDeposit params w = Inl (Panic ''reflect: Call using wrong arguments'')"

fun PTest1 :: "(arg, 'a testWorld_scheme) Func" where
  "PTest1 [Ctx, StrPtr name, IntV age] w = Inr ([], w)"
| "PTest1 params w = Inl (Panic ''reflect: Call using wrong arguments'')"

text \<open>\<^verbatim>\<open>initIt(mode)\<close>: the three registered sub-transactions and the initial world.\<close>

definition testSec :: "(arg, testWorld) ExecutionCoordinator" where
  "testSec =
     \<lparr>subTxDefinitions =
        [''deduce'' \<mapsto> \<lparr>actionCall = DeduceAccount, compensateCall = CompensateDeduce\<rparr>,
         ''deposit'' \<mapsto> \<lparr>actionCall = DepositAccount, compensateCall = CompensateDeposit\<rparr>,
         ''test'' \<mapsto> \<lparr>actionCall = PTest1, compensateCall = PTest1\<rparr>]\<rparr>"

definition initIt :: "FailureMode \<Rightarrow> testWorld" where
  "initIt mode = \<lparr>memDB = [''foo'' \<mapsto> 200, ''bar'' \<mapsto> 0], testMode = mode\<rparr>"

text \<open>
  \<^verbatim>\<open>const LogPrefix = "saga_"\<close>. The tests start their saga with the identifier 1,
  the background context and the in-memory storage; \<open>testState mode\<close> is a fresh
  storage together with the world of \<^verbatim>\<open>initIt(mode)\<close>.
\<close>

definition LogPrefix :: string where
  "LogPrefix = ''saga_''"

definition testSaga :: "(arg, testWorld) Saga" where
  "testSaga = \<lparr>sagaId = 1, logID = LogPrefix @ ''1'', ctx = Ctx, sec = testSec\<rparr>"

definition testState :: "FailureMode \<Rightarrow> (arg, testWorld) state" where
  "testState mode = \<lparr>storage = NewMemStorage, world = initIt mode, tick = 0, calls = []\<rparr>"

subsection \<open>A concrete codec for the scenarios\<close>

text \<open>
  One instance of the encoders that the model takes as parameters: an entry is written
  as its fields separated by a bar, the time in unary and
  integer arguments in decimal. It decodes what it encodes as long
  as identifiers and string arguments contain no bar, which holds in the scenarios.
\<close>

fun splitOn :: "char \<Rightarrow> string \<Rightarrow> string list" where
  "splitOn c [] = [[]]"
| "splitOn c (x # xs) =
     (if x = c then [] # splitOn c xs
      else (case splitOn c xs of [] \<Rightarrow> [[x]] | y # ys \<Rightarrow> (x # y) # ys))"

definition digitChar :: "nat \<Rightarrow> char" where
  "digitChar n = ''0123456789'' ! n"

definition digitVal :: "char \<Rightarrow> nat" where
  "digitVal c = length (takeWhile (\<lambda>d. d \<noteq> c) ''0123456789'')"

fun encNat :: "nat \<Rightarrow> string" where
  "encNat n = (if n < 10 then [digitChar n] else encNat (n div 10) @ [digitChar (n mod 10)])"

declare encNat.simps [simp del]

definition decNat :: "string \<Rightarrow> nat" where
  "decNat u = foldl (\<lambda>a c. 10 * a + digitVal c) 0 u"

fun encArg :: "arg \<Rightarrow> string" where
  "encArg Ctx = ''c''"
| "encArg (StrV s) = CHR ''s'' # s"
| "encArg (IntV i) = CHR ''i'' # (if i < 0 then CHR ''-'' else CHR ''+'') # encNat (nat \<bar>i\<bar>)"
| "encArg (StrPtr None) = ''n''"
| "encArg (StrPtr (Some s)) = CHR ''p'' # s"

fun decArg :: "string \<Rightarrow> panic + arg" where
  "decArg [] = Inl (Panic ''bad param'')"
| "decArg (k # r) =
     (if k = CHR ''c'' then Inr Ctx
      else if k = CHR ''s'' then Inr (StrV r)
      else if k = CHR ''n'' then Inr (StrPtr None)
      else if k = CHR ''p'' then Inr (StrPtr (Some r))
      else if k = CHR ''i'' then
        (case r of
           [] \<Rightarrow> Inl (Panic ''bad param'')
         | sg # u \<Rightarrow>
             Inr (IntV (if sg = CHR ''-'' then - int (decNat u) else int (decNat u))))
      else Inl (Panic ''bad param''))"

fun decArgs :: "string list \<Rightarrow> panic + arg list" where
  "decArgs [] = Inr []"
| "decArgs (p # ps) =
     (case decArg p of
        Inl e \<Rightarrow> Inl e
      | Inr a \<Rightarrow> (case decArgs ps of Inl e \<Rightarrow> Inl e | Inr as \<Rightarrow> Inr (a # as)))"

fun encType :: "LogType \<Rightarrow> char" where
  "encType SagaStart = CHR ''0''"
| "encType ActionStart = CHR ''1''"
| "encType ActionEnd = CHR ''2''"
| "encType SagaAbort = CHR ''3''"
| "encType CompensateStart = CHR ''4''"
| "encType CompensateEnd = CHR ''5''"
| "encType SagaEnd = CHR ''6''"

definition decType :: "string \<Rightarrow> panic + LogType" where
  "decType f =
     (if f = ''0'' then Inr SagaStart
      else if f = ''1'' then Inr ActionStart
      else if f = ''2'' then Inr ActionEnd
      else if f = ''3'' then Inr SagaAbort
      else if f = ''4'' then Inr CompensateStart
      else if f = ''5'' then Inr CompensateEnd
      else if f = ''6'' then Inr SagaEnd
      else Inl (Panic ''bad log''))"

definition encLog :: "string list Log \<Rightarrow> string" where
  "encLog l =
     [encType (Type l)] @ ''|'' @ replicate (Time l) CHR ''1'' @ ''|'' @ SubTxID l @
     (case Params l of
        None \<Rightarrow> []
      | Some ps \<Rightarrow> ''|'' @ concat (map (\<lambda>p. CHR ''|'' # p) ps))"

definition decLog :: "string \<Rightarrow> panic + string list Log" where
  "decLog d =
     (let f = splitOn CHR ''|'' d in
      if length f < 3 then Inl (Panic ''bad log'')
      else
        (case decType (f ! 0) of
           Inl e \<Rightarrow> Inl e
         | Inr ty \<Rightarrow>
             Inr \<lparr>Type = ty, SubTxID = f ! 2, Time = length (f ! 1),
                  Params = (if length f = 3 then None else Some (drop 4 f))\<rparr>))"

definition testEnv :: "(arg, string list, 'w) env" where
  "testEnv =
     \<lparr>mustMarshal = (\<lambda>l. Inr (encLog l)),
      mustUnmarshalLog = decLog,
      MarshalParam = (\<lambda>e args. Inr (map encArg args)),
      UnmarshalParam = (\<lambda>e ps. case ps of None \<Rightarrow> Inr [] | Some q \<Rightarrow> decArgs q),
      clock = (\<lambda>k. k)\<rparr>"

text \<open>
  The chains of the two tests:
  \<^verbatim>\<open>StartSaga(...).ExecSub("deduce", from, amount).ExecSub("deposit", to, amount)\<close>,
  first without and then with the final \<^verbatim>\<open>EndSaga()\<close>. A panic or a run out of fuel
  ends the chain.
\<close>

definition testChain :: "nat \<Rightarrow> FailureMode \<Rightarrow> (panic + (arg, testWorld) state) option" where
  "testChain fuel mode =
     (case startSaga testEnv testSaga (testState mode) of
        Inl p \<Rightarrow> Some (Inl p)
      | Inr st0 \<Rightarrow>
          (case ExecSub testEnv fuel testSaga ''deduce'' [StrV ''foo'', IntV 100] st0 of
             None \<Rightarrow> None
           | Some (Inl p) \<Rightarrow> Some (Inl p)
           | Some (Inr st1) \<Rightarrow>
               ExecSub testEnv fuel testSaga ''deposit'' [StrV ''bar'', IntV 100] st1))"

definition testRun :: "nat \<Rightarrow> FailureMode \<Rightarrow> (panic + (arg, testWorld) state) option" where
  "testRun fuel mode =
     (case testChain fuel mode of
        None \<Rightarrow> None
      | Some (Inl p) \<Rightarrow> Some (Inl p)
      | Some (Inr st2) \<Rightarrow> Some (EndSaga testEnv testSaga st2))"

subsection \<open>A compensation that fails once\<close>

text \<open>
  A second registry, for runs in which a compensation reports failure: the world counts
  how many more times the compensation of the deposit fails before it succeeds.
\<close>

record flakyWorld = testWorld +
  failsLeft :: nat

fun FlakyCompensateDeposit :: "(arg, flakyWorld) Func" where
  "FlakyCompensateDeposit [Ctx, StrV account, IntV amount] w =
     (if 0 < failsLeft w then Inr ([VNonNil], w\<lparr>failsLeft := failsLeft w - 1\<rparr>)
      else Inr ([VNil], w\<lparr>memDB := (memDB w)(account \<mapsto> getDB (memDB w) account - amount)\<rparr>))"
| "FlakyCompensateDeposit params w = Inl (Panic ''reflect: Call using wrong arguments'')"

definition flakySec :: "(arg, flakyWorld) ExecutionCoordinator" where
  "flakySec =
     \<lparr>subTxDefinitions =
        [''deduce'' \<mapsto> \<lparr>actionCall = DeduceAccount, compensateCall = CompensateDeduce\<rparr>,
         ''deposit'' \<mapsto>
           \<lparr>actionCall = DepositAccount, compensateCall = FlakyCompensateDeposit\<rparr>]\<rparr>"

definition flakySaga :: "(arg, flakyWorld) Saga" where
  "flakySaga = \<lparr>sagaId = 1, logID = LogPrefix @ ''1'', ctx = Ctx, sec = flakySec\<rparr>"

definition flakyState :: "nat \<Rightarrow> (arg, flakyWorld) state" where
  "flakyState k =
     \<lparr>storage = NewMemStorage,
      world = \<lparr>memDB = [''foo'' \<mapsto> 200, ''bar'' \<mapsto> 0], testMode = OK, failsLeft = k\<rparr>,
      tick = 0, calls = []\<rparr>"

text \<open>
  Both actions succeed; then \<^verbatim>\<open>Abort()\<close> is called on the saga, and the
  compensation of the deposit fails \<open>k\<close> times.
\<close>

definition flakyForward :: "nat \<Rightarrow> (panic + (arg, flakyWorld) state) option" where
  "flakyForward k =
     (case startSaga testEnv flakySaga (flakyState k) of
        Inl p \<Rightarrow> Some (Inl p)
      | Inr st0 \<Rightarrow>
          (case ExecSub testEnv 0 flakySaga ''deduce'' [StrV ''foo'', IntV 100] st0 of
             None \<Rightarrow> None
           | Some (Inl p) \<Rightarrow> Some (Inl p)
           | Some (Inr st1) \<Rightarrow>
               ExecSub testEnv 0 flakySaga ''deposit'' [StrV ''bar'', IntV 100] st1))"

definition flakyAbort :: "nat \<Rightarrow> nat \<Rightarrow> (panic + (arg, flakyWorld) state) option" where
  "flakyAbort fuel k =
     (case flakyForward k of
        None \<Rightarrow> None
      | Some (Inl p) \<Rightarrow> Some (Inl p)
      | Some (Inr st2) \<Rightarrow> Abort testEnv fuel flakySaga st2)"

subsection \<open>A compensation that always fails\<close>




section \<open>Vocabulary for the statements\<close>

text \<open>
  The three elementary changes of state that the saga code makes: reading the clock,
  appending one record to the storage, and recording a call together with the world it
  leaves behind.
\<close>

definition ticked :: "('v, 'w) state \<Rightarrow> ('v, 'w) state" where
  "ticked st = st\<lparr>tick := Suc (tick st)\<rparr>"

definition appendData :: "string \<Rightarrow> ('v, 'w) state \<Rightarrow> ('v, 'w) state" where
  "appendData d st = st\<lparr>storage := (storage st)\<lparr>data := data (storage st) @ [d]\<rparr>\<rparr>"

definition called :: "'v call \<Rightarrow> 'w \<Rightarrow> ('v, 'w) state \<Rightarrow> ('v, 'w) state" where
  "called c w st = st\<lparr>world := w, calls := calls st @ [c]\<rparr>"

text \<open>
  \<open>onlyAppends E a b\<close>: the log of \<open>b\<close> is the log of \<open>a\<close> followed by the encodings
  of entries of the three kinds that an abort writes.
\<close>

definition onlyAppends :: "('v, 'p, 'w) env \<Rightarrow> ('v, 'w) state \<Rightarrow> ('v, 'w) state \<Rightarrow> bool" where
  "onlyAppends E a b \<longleftrightarrow>
     (\<exists>ls ds. data (storage b) = data (storage a) @ ds
        \<and> map (mustMarshal E) ls = map Inr ds
        \<and> (\<forall>l \<in> set ls. Type l = SagaAbort \<or> Type l = CompensateStart \<or> Type l = CompensateEnd))"

text \<open>\<open>moreCalls a b\<close>: the history of calls of \<open>b\<close> extends that of \<open>a\<close>.\<close>

definition moreCalls :: "('v, 'w) state \<Rightarrow> ('v, 'w) state \<Rightarrow> bool" where
  "moreCalls a b \<longleftrightarrow> (\<exists>cs. calls b = calls a @ cs)"

text \<open>
  \<open>replayed entries\<close> are the ActionStart entries of a log, the latest first: the
  order in which \<^verbatim>\<open>Abort\<close> is to compensate them.
\<close>

definition replayed :: "'p Log list \<Rightarrow> 'p Log list" where
  "replayed entries = rev (filter (\<lambda>l. Type l = ActionStart) entries)"

text \<open>
  What the spec asks of a replay in which nothing fails, written without the log and
  without \<^verbatim>\<open>Abort\<close>: \<open>replayCompensations E s ls w\<close> calls the compensation of each
  entry of \<open>ls\<close> in turn, with the context and the parameters decoded from that entry,
  each on the world that the call before it left. It is \<open>None\<close> as soon as parameters do
  not decode, a sub-transaction is not registered, or a call panics or reports failure.
\<close>

fun replayCompensations ::
  "('v, 'p, 'w) env \<Rightarrow> ('v, 'w) Saga \<Rightarrow> 'p Log list \<Rightarrow> 'w \<Rightarrow> 'w option" where
  "replayCompensations E s [] w = Some w"
| "replayCompensations E s (l # ls) w =
     (case UnmarshalParam E (sec s) (Params l) of
        Inl p \<Rightarrow> None
      | Inr args \<Rightarrow>
          (case MustFindSubTxDef (sec s) (SubTxID l) of
             Inl p \<Rightarrow> None
           | Inr subDef \<Rightarrow>
               (case compensateCall subDef (ctx s # args) w of
                  Inl p \<Rightarrow> None
                | Inr (result, w') \<Rightarrow>
                    (case isReturnError result of
                       Inl p \<Rightarrow> None
                     | Inr failed \<Rightarrow>
                         if failed then None else replayCompensations E s ls w'))))"

text \<open>
  The entries that an abort writes when it compensates the entries \<open>ls\<close> and nothing
  fails, the first of them at the clock reading \<open>t\<close>: a SagaAbort entry, then a
  CompensateStart and a CompensateEnd entry for each entry of \<open>ls\<close>.
\<close>

fun compensationEntries :: "('v, 'p, 'w) env \<Rightarrow> nat \<Rightarrow> 'p Log list \<Rightarrow> 'p Log list" where
  "compensationEntries E t [] = []"
| "compensationEntries E t (l # ls) =
     \<lparr>Type = CompensateStart, SubTxID = SubTxID l, Time = clock E t, Params = None\<rparr> #
     \<lparr>Type = CompensateEnd, SubTxID = SubTxID l, Time = clock E (Suc t), Params = None\<rparr> #
     compensationEntries E (Suc (Suc t)) ls"

definition abortEntries :: "('v, 'p, 'w) env \<Rightarrow> nat \<Rightarrow> 'p Log list \<Rightarrow> 'p Log list" where
  "abortEntries E t ls =
     \<lparr>Type = SagaAbort, SubTxID = '''', Time = clock E t, Params = None\<rparr> #
     compensationEntries E (Suc t) ls"

text \<open>\<open>compensationCall E s l\<close> is the call of the compensation of entry \<open>l\<close>.\<close>

definition compensationCall :: "('v, 'p, 'w) env \<Rightarrow> ('v, 'w) Saga \<Rightarrow> 'p Log \<Rightarrow> 'v call" where
  "compensationCall E s l =
     CompensateCall (SubTxID l)
       (ctx s # (case UnmarshalParam E (sec s) (Params l) of Inl p \<Rightarrow> [] | Inr args \<Rightarrow> args))"

text \<open>What a run that returned left behind: the log, the calls, a balance.\<close>

definition logOf :: "(panic + ('v, 'w) state) option \<Rightarrow> string list option" where
  "logOf r = (case r of Some (Inr st) \<Rightarrow> Some (data (storage st)) | _ \<Rightarrow> None)"

definition callsOf :: "(panic + ('v, 'w) state) option \<Rightarrow> 'v call list option" where
  "callsOf r = (case r of Some (Inr st) \<Rightarrow> Some (calls st) | _ \<Rightarrow> None)"

definition balanceOf ::
  "(panic + ('v, 'a testWorld_scheme) state) option \<Rightarrow> string \<Rightarrow> int option" where
  "balanceOf r k = (case r of Some (Inr st) \<Rightarrow> Some (getDB (memDB (world st)) k) | _ \<Rightarrow> None)"

text \<open>The kind and the sub-transaction of every record of a log, read with the scenario's decoder.\<close>

definition kindsOf :: "string list \<Rightarrow> (panic + LogType \<times> string) list" where
  "kindsOf ds = map (\<lambda>d. case decLog d of Inl p \<Rightarrow> Inl p | Inr l \<Rightarrow> Inr (Type l, SubTxID l)) ds"

subsection \<open>States of the test scenario\<close>


definition afterDeduce :: "FailureMode \<Rightarrow> (arg, testWorld) state" where
  "afterDeduce mode =
     (case startSaga testEnv testSaga (testState mode) of
        Inl p \<Rightarrow> testState mode
      | Inr st0 \<Rightarrow>
          (case ExecSub testEnv 0 testSaga ''deduce'' [StrV ''foo'', IntV 100] st0 of
             Some (Inr st1) \<Rightarrow> st1
           | _ \<Rightarrow> st0))"

definition afterForward :: "(arg, testWorld) state" where
  "afterForward = (case testChain 0 OK of Some (Inr st) \<Rightarrow> st | _ \<Rightarrow> testState OK)"

text \<open>
  \<open>depositInFlight\<close> is the state in which the action of the deposit has been called
  and has not completed: its ActionStart entry is in the log and no ActionEnd entry
  follows. It is the state on which \<^verbatim>\<open>ExecSub\<close> calls \<^verbatim>\<open>Abort\<close> in
  \<^verbatim>\<open>TestDepositFail\<close>.
\<close>

definition depositInFlight :: "(arg, testWorld) state" where
  "depositInFlight =
     called (ActionCall ''deposit'' [Ctx, StrV ''bar'', IntV 100])
       (world (afterDeduce DepositFail))
       (appendData
          (encLog \<lparr>Type = ActionStart, SubTxID = ''deposit'',
                   Time = tick (afterDeduce DepositFail),
                   Params = Some (map encArg [StrV ''bar'', IntV 100])\<rparr>)
          (ticked (afterDeduce DepositFail)))"

text \<open>The entries that the log of \<^verbatim>\<open>TestAllSuccess\<close> holds before \<^verbatim>\<open>EndSaga()\<close>.\<close>

definition forwardEntries :: "string list Log list" where
  "forwardEntries =
     [\<lparr>Type = SagaStart, SubTxID = '''', Time = 0, Params = None\<rparr>,
      \<lparr>Type = ActionStart, SubTxID = ''deduce'', Time = 1, Params = Some [''sfoo'', ''i+100'']\<rparr>,
      \<lparr>Type = ActionEnd, SubTxID = ''deduce'', Time = 2, Params = None\<rparr>,
      \<lparr>Type = ActionStart, SubTxID = ''deposit'', Time = 3, Params = Some [''sbar'', ''i+100'']\<rparr>,
      \<lparr>Type = ActionEnd, SubTxID = ''deposit'', Time = 4, Params = None\<rparr>]"

subsection \<open>States of the run with a failing compensation\<close>

text \<open>
  \<open>flakyAfterForward\<close> is the state after both actions have succeeded, with one failure
  of the deposit's compensation still to come; \<open>flakyReplay\<close> is the state in which the
  loop of \<^verbatim>\<open>Abort\<close> starts on it, the SagaAbort entry written; \<open>flakyFailed\<close> is the
  state in which the compensation of the deposit has just reported failure.
\<close>

definition flakyAfterForward :: "(arg, flakyWorld) state" where
  "flakyAfterForward = (case flakyForward 1 of Some (Inr st) \<Rightarrow> st | _ \<Rightarrow> flakyState 1)"

definition flakyReplay :: "(arg, flakyWorld) state" where
  "flakyReplay =
     appendData
       (encLog \<lparr>Type = SagaAbort, SubTxID = '''', Time = tick flakyAfterForward, Params = None\<rparr>)
       (ticked flakyAfterForward)"

definition flakyFailed :: "(arg, flakyWorld) state" where
  "flakyFailed =
     called (CompensateCall ''deposit'' [Ctx, StrV ''bar'', IntV 100])
       ((world flakyReplay)\<lparr>failsLeft := 0\<rparr>)
       (appendData
          (encLog \<lparr>Type = CompensateStart, SubTxID = ''deposit'', Time = tick flakyReplay,
                   Params = None\<rparr>)
          (ticked flakyReplay))"

text \<open>
  \<open>flakyCalm\<close> is the state after both actions have succeeded in the second registry,
  with no failure of a compensation to come.
\<close>

definition flakyCalm :: "(arg, flakyWorld) state" where
  "flakyCalm = (case flakyForward 0 of Some (Inr st) \<Rightarrow> st | _ \<Rightarrow> flakyState 0)"

subsection \<open>States of the run with a compensation that always fails\<close>



section \<open>Properties of the storage\<close>

lemma data_AppendLogs: "data (AppendLogs ds s) = data s @ ds"
  by (induction ds arbitrary: s) (simp_all add: AppendLog_def)

text \<open>
  Claim C7. Cleanup on a log stream that is already empty returns no error and leaves
  the stream empty; a second Cleanup gives the same storage and the same (nil) error as
  the first one, whatever the stream held before.
\<close>

theorem C7_Cleanup_idempotent:
  "Cleanup (s\<lparr>data := []\<rparr>) = (s\<lparr>data := []\<rparr>, None)
   \<and> Cleanup NewMemStorage = (NewMemStorage, None)
   \<and> Cleanup (fst (Cleanup s)) = Cleanup s
   \<and> snd (Cleanup s) = None
   \<and> fst (Lookup (fst (Cleanup s))) = []"
  by (simp add: Cleanup_def NewMemStorage_def Lookup_def)

text \<open>
  Claim C8. On the in-memory storage, once at least one record has been appended after
  the last Cleanup (or after creation), LastLog returns the record appended last, with a
  nil error; on a stream with no records it returns the empty string together with the
  error "LogData is empty".
\<close>

theorem C8_LastLog:
  "(ds \<noteq> [] \<longrightarrow>
      LastLog (AppendLogs ds (fst (Cleanup s))) = (last ds, None)
      \<and> LastLog (AppendLogs ds NewMemStorage) = (last ds, None))
   \<and> LastLog (fst (AppendLog d s)) = (d, None)
   \<and> (data s = [] \<longrightarrow> LastLog s = ('''', Some (Error ''LogData is empty'')))
   \<and> LastLog (fst (Cleanup s)) = ('''', Some (Error ''LogData is empty''))
   \<and> LastLog NewMemStorage = ('''', Some (Error ''LogData is empty''))"
  by (simp add: LastLog_def data_AppendLogs Cleanup_def NewMemStorage_def AppendLog_def
      last_conv_nth Let_def)

theorem C8_LastLog_witness:
  "[''a'', ''b''] \<noteq> []
   \<and> LastLog (AppendLogs [''a'', ''b''] (fst (Cleanup \<lparr>data = [''x'']\<rparr>))) = (''b'', None)
   \<and> LastLog (AppendLogs [''a'', ''b''] NewMemStorage) = (''b'', None)
   \<and> data \<lparr>data = []\<rparr> = []
   \<and> LastLog \<lparr>data = []\<rparr> = ('''', Some (Error ''LogData is empty''))"
  using C8_LastLog [of "[''a'', ''b'']" "\<lparr>data = [''x'']\<rparr>" "''c''"]
    C8_LastLog [of "[]" "\<lparr>data = []\<rparr>" "''c''"]
  by simp

text \<open>
  Claim C9. For every LogProvider value other than the in-memory kind, GetLogStorage
  panics with "unsupported provider" and returns no storage handle; this holds in
  particular for the declared constant Kafka.
\<close>

theorem C9_GetLogStorage_unsupported:
  "(t \<noteq> Memory \<longrightarrow> GetLogStorage t = Inl (Panic ''unsupported provider''))
   \<and> GetLogStorage Kafka = Inl (Panic ''unsupported provider'')
   \<and> GetLogStorage Memory = Inr NewMemStorage"
  by (simp add: GetLogStorage_def Memory_def Kafka_def)

theorem C9_GetLogStorage_unsupported_witness:
  "''redis'' \<noteq> Memory \<and> GetLogStorage ''redis'' = Inl (Panic ''unsupported provider'')"
  using C9_GetLogStorage_unsupported [of "''redis''"]
  by (simp add: Memory_def)

section \<open>The saga code, one step at a time\<close>

lemma writeLog_eq:
  "writeLog msg E l st =
     (case mustMarshal E l of Inl p \<Rightarrow> Inl p | Inr d \<Rightarrow> Inr (appendData d st))"
  by (simp add: writeLog_def AppendLog_def appendData_def split: sum.splits)

lemma timeNow_eq: "timeNow E st = (clock E (tick st), ticked st)"
  by (simp add: timeNow_def ticked_def)

lemma tick_appendData [simp]: "tick (appendData d st) = tick st"
  and tick_ticked [simp]: "tick (ticked st) = Suc (tick st)"
  and world_appendData [simp]: "world (appendData d st) = world st"
  and world_ticked [simp]: "world (ticked st) = world st"
  and calls_appendData [simp]: "calls (appendData d st) = calls st"
  and calls_ticked [simp]: "calls (ticked st) = calls st"
  and data_appendData [simp]: "data (storage (appendData d st)) = data (storage st) @ [d]"
  and storage_ticked [simp]: "storage (ticked st) = storage st"
  and tick_called [simp]: "tick (called c w st) = tick st"
  and world_called [simp]: "world (called c w st) = w"
  and calls_called [simp]: "calls (called c w st) = calls st @ [c]"
  and storage_called [simp]: "storage (called c w st) = storage st"
  by (simp_all add: appendData_def ticked_def called_def)

lemma compensate_eq:
  "compensate E n s tlog st =
     (case mustMarshal E \<lparr>Type = CompensateStart, SubTxID = SubTxID tlog,
                          Time = clock E (tick st), Params = None\<rparr> of
        Inl p \<Rightarrow> Some (Inl p)
      | Inr d1 \<Rightarrow>
     (case UnmarshalParam E (sec s) (Params tlog) of
        Inl p \<Rightarrow> Some (Inl p)
      | Inr args \<Rightarrow>
     (case MustFindSubTxDef (sec s) (SubTxID tlog) of
        Inl p \<Rightarrow> Some (Inl p)
      | Inr subDef \<Rightarrow>
     (case compensateCall subDef (ctx s # args) (world st) of
        Inl p \<Rightarrow> Some (Inl p)
      | Inr (result, w) \<Rightarrow>
     (case isReturnError result of
        Inl p \<Rightarrow> Some (Inl p)
      | Inr failed \<Rightarrow>
     (case (if failed then
              Abort E n s (called (CompensateCall (SubTxID tlog) (ctx s # args)) w
                             (appendData d1 (ticked st)))
            else Some (Inr (called (CompensateCall (SubTxID tlog) (ctx s # args)) w
                              (appendData d1 (ticked st))))) of
        None \<Rightarrow> None
      | Some (Inl p) \<Rightarrow> Some (Inl p)
      | Some (Inr st4) \<Rightarrow>
     (case mustMarshal E \<lparr>Type = CompensateEnd, SubTxID = SubTxID tlog,
                          Time = clock E (tick st4), Params = None\<rparr> of
        Inl p \<Rightarrow> Some (Inl p)
      | Inr d2 \<Rightarrow> Some (Inr (None, appendData d2 (ticked st4))))))))))"
  apply (simp only: compensate.simps timeNow_eq writeLog_eq Let_def prod.case called_def)
  apply (simp only: appendData_def ticked_def)
  apply (simp split: sum.splits prod.splits option.splits)
  done

lemma Abort_Suc_eq:
  "Abort E (Suc n) s st =
     (case mustMarshal E \<lparr>Type = SagaAbort, SubTxID = '''', Time = clock E (tick st),
                          Params = None\<rparr> of
        Inl p \<Rightarrow> Some (Inl p)
      | Inr d \<Rightarrow>
          AbortLoop E n s (data (storage st)) (length (data (storage st)))
            (appendData d (ticked st)))"
  by (simp add: Lookup_def timeNow_eq writeLog_eq split: sum.splits)

lemma AbortLoop_Suc_eq:
  "AbortLoop E n s logs (Suc i) st =
     (case mustUnmarshalLog E (logs ! i) of
        Inl p \<Rightarrow> Some (Inl p)
      | Inr logger \<Rightarrow>
          if Type logger = ActionStart then
            (case compensate E n s logger st of
               None \<Rightarrow> None
             | Some (Inl p) \<Rightarrow> Some (Inl p)
             | Some (Inr (err, st')) \<Rightarrow>
                 if err \<noteq> None then Some (Inl (Panic ''Compensate Failure..''))
                 else AbortLoop E n s logs i st')
          else AbortLoop E n s logs i st)"
  by (simp only: AbortLoop.simps Let_def)

lemma ExecSub_eq:
  "ExecSub E fuel s subTxID args st =
     (case MustFindSubTxDef (sec s) subTxID of
        Inl p \<Rightarrow> Some (Inl p)
      | Inr subTxDef \<Rightarrow>
     (case MarshalParam E (sec s) args of
        Inl p \<Rightarrow> Some (Inl p)
      | Inr ps \<Rightarrow>
     (case mustMarshal E \<lparr>Type = ActionStart, SubTxID = subTxID, Time = clock E (tick st),
                          Params = Some ps\<rparr> of
        Inl p \<Rightarrow> Some (Inl p)
      | Inr d \<Rightarrow>
     (case actionCall subTxDef (ctx s # args) (world st) of
        Inl p \<Rightarrow> Some (Inl p)
      | Inr (result, w) \<Rightarrow>
     (case isReturnError result of
        Inl p \<Rightarrow> Some (Inl p)
      | Inr failed \<Rightarrow>
          if failed then
            Abort E fuel s (called (ActionCall subTxID (ctx s # args)) w
                              (appendData d (ticked st)))
          else
            (case mustMarshal E \<lparr>Type = ActionEnd, SubTxID = subTxID,
                                 Time = clock E (Suc (tick st)), Params = None\<rparr> of
               Inl p \<Rightarrow> Some (Inl p)
             | Inr d' \<Rightarrow>
                 Some (Inr (appendData d' (ticked
                   (called (ActionCall subTxID (ctx s # args)) w
                      (appendData d (ticked st))))))))))))"
  apply (simp only: ExecSub_def timeNow_eq writeLog_eq Let_def prod.case called_def)
  apply (simp only: appendData_def ticked_def)
  apply (simp split: sum.splits prod.splits option.splits)
  done

lemma EndSaga_eq:
  "EndSaga E s st =
     (case mustMarshal E \<lparr>Type = SagaEnd, SubTxID = '''', Time = clock E (tick st),
                          Params = None\<rparr> of
        Inl p \<Rightarrow> Inl p
      | Inr d \<Rightarrow>
          Inr ((appendData d (ticked st))
                 \<lparr>storage := fst (Cleanup (storage (appendData d (ticked st))))\<rparr>))"
  by (simp add: EndSaga_def timeNow_eq writeLog_eq Cleanup_def split: sum.splits)

declare compensate.simps [simp del] Abort.simps(2) [simp del] AbortLoop.simps(2) [simp del]

section \<open>Relations that every abort maintains\<close>

text \<open>
  A relation between states that is reflexive and transitive and holds across each of
  the elementary steps of an abort holds between the state before and the state after
  \<^verbatim>\<open>compensate\<close>, the loop and \<^verbatim>\<open>Abort\<close>, nested aborts included.
\<close>

lemma compensate_rel:
  assumes ab: "\<And>a b. Abort E n s a = Some (Inr b) \<Longrightarrow> R a b"
    and tr: "\<And>a b c. R a b \<Longrightarrow> R b c \<Longrightarrow> R a c"
    and tk: "\<And>a. R a (ticked a)"
    and wr: "\<And>a l d. mustMarshal E l = Inr d \<Longrightarrow>
               Type l = SagaAbort \<or> Type l = CompensateStart \<or> Type l = CompensateEnd \<Longrightarrow>
               R a (appendData d a)"
    and cl: "\<And>a i ps w. R a (called (CompensateCall i ps) w a)"
    and c: "compensate E n s tlog st = Some (Inr (err, st'))"
  shows "R st st'"
proof -
  from c obtain d1 args result w failed st4 d2 where
    m1: "mustMarshal E \<lparr>Type = CompensateStart, SubTxID = SubTxID tlog,
           Time = clock E (tick st), Params = None\<rparr> = Inr d1"
    and st4: "(if failed then
                 Abort E n s (called (CompensateCall (SubTxID tlog) (ctx s # args)) w
                                (appendData d1 (ticked st)))
               else Some (Inr (called (CompensateCall (SubTxID tlog) (ctx s # args)) w
                                 (appendData d1 (ticked st))))) = Some (Inr st4)"
    and m2: "mustMarshal E \<lparr>Type = CompensateEnd, SubTxID = SubTxID tlog,
           Time = clock E (tick st4), Params = None\<rparr> = Inr d2"
    and st': "st' = appendData d2 (ticked st4)"
    unfolding compensate_eq by (auto split: sum.splits option.splits prod.splits)
  let ?c = "called (CompensateCall (SubTxID tlog) (ctx s # args)) w (appendData d1 (ticked st))"
  have 1: "R st ?c"
    using tr [OF tr [OF tk wr [OF m1]] cl] by simp
  have 2: "R st st4"
  proof (cases failed)
    case True
    with st4 have "R ?c st4" by (simp add: ab)
    with 1 show ?thesis by (rule tr)
  next
    case False
    with st4 1 show ?thesis by simp
  qed
  have "R st4 st'"
    unfolding st' using tr [OF tk wr [OF m2]] by simp
  with 2 show ?thesis by (rule tr)
qed

lemma AbortLoop_rel:
  assumes ab: "\<And>a b. Abort E n s a = Some (Inr b) \<Longrightarrow> R a b"
    and tr: "\<And>a b c. R a b \<Longrightarrow> R b c \<Longrightarrow> R a c"
    and rf: "\<And>a. R a a"
    and tk: "\<And>a. R a (ticked a)"
    and wr: "\<And>a l d. mustMarshal E l = Inr d \<Longrightarrow>
               Type l = SagaAbort \<or> Type l = CompensateStart \<or> Type l = CompensateEnd \<Longrightarrow>
               R a (appendData d a)"
    and cl: "\<And>a i ps w. R a (called (CompensateCall i ps) w a)"
  shows "AbortLoop E n s logs k st = Some (Inr st') \<Longrightarrow> R st st'"
proof (induction k arbitrary: st)
  case 0
  then show ?case by (simp add: rf)
next
  case (Suc k)
  from Suc.prems obtain logger where
    l: "mustUnmarshalLog E (logs ! k) = Inr logger"
    by (auto simp: AbortLoop_Suc_eq split: sum.splits)
  show ?case
  proof (cases "Type logger = ActionStart")
    case True
    with Suc.prems l obtain st1 where
      c: "compensate E n s logger st = Some (Inr (None, st1))"
      and r: "AbortLoop E n s logs k st1 = Some (Inr st')"
      by (auto simp: AbortLoop_Suc_eq split: sum.splits option.splits if_splits)
    have "R st st1"
      by (rule compensate_rel [where R = R, OF ab tr tk wr cl c])
    moreover have "R st1 st'" using r by (rule Suc.IH)
    ultimately show ?thesis by (rule tr)
  next
    case False
    with Suc.prems l have "AbortLoop E n s logs k st = Some (Inr st')"
      by (simp add: AbortLoop_Suc_eq)
    then show ?thesis by (rule Suc.IH)
  qed
qed

lemma Abort_rel:
  assumes tr: "\<And>a b c. R a b \<Longrightarrow> R b c \<Longrightarrow> R a c"
    and rf: "\<And>a. R a a"
    and tk: "\<And>a. R a (ticked a)"
    and wr: "\<And>a l d. mustMarshal E l = Inr d \<Longrightarrow>
               Type l = SagaAbort \<or> Type l = CompensateStart \<or> Type l = CompensateEnd \<Longrightarrow>
               R a (appendData d a)"
    and cl: "\<And>a i ps w. R a (called (CompensateCall i ps) w a)"
  shows "Abort E n s st = Some (Inr st') \<Longrightarrow> R st st'"
proof (induction n arbitrary: st st')
  case 0
  then show ?case by simp
next
  case (Suc n)
  from Suc.prems obtain d where
    m: "mustMarshal E \<lparr>Type = SagaAbort, SubTxID = '''', Time = clock E (tick st),
          Params = None\<rparr> = Inr d"
    and l: "AbortLoop E n s (data (storage st)) (length (data (storage st)))
              (appendData d (ticked st)) = Some (Inr st')"
    by (auto simp: Abort_Suc_eq split: sum.splits)
  have "R st (appendData d (ticked st))"
    using tr [OF tk wr [OF m]] by simp
  moreover have "R (appendData d (ticked st)) st'"
  proof (rule AbortLoop_rel [where R = R and E = E and n = n and s = s])
    show "AbortLoop E n s (data (storage st)) (length (data (storage st)))
            (appendData d (ticked st)) = Some (Inr st')"
      by (rule l)
  qed (rule Suc.IH tr rf tk wr cl; assumption)+
  ultimately show ?case by (rule tr)
qed

section \<open>The log only grows, and so does the history of calls\<close>

lemma onlyAppends_refl: "onlyAppends E a a"
  unfolding onlyAppends_def by (rule exI [of _ "[]"]) simp

lemma onlyAppends_trans: "onlyAppends E a b \<Longrightarrow> onlyAppends E b c \<Longrightarrow> onlyAppends E a c"
proof -
  assume "onlyAppends E a b" and "onlyAppends E b c"
  then obtain ls ds ls' ds' where
    1: "data (storage b) = data (storage a) @ ds" "map (mustMarshal E) ls = map Inr ds"
       "\<forall>l \<in> set ls. Type l = SagaAbort \<or> Type l = CompensateStart \<or> Type l = CompensateEnd"
    and 2: "data (storage c) = data (storage b) @ ds'" "map (mustMarshal E) ls' = map Inr ds'"
       "\<forall>l \<in> set ls'. Type l = SagaAbort \<or> Type l = CompensateStart \<or> Type l = CompensateEnd"
    unfolding onlyAppends_def by blast
  show ?thesis
    unfolding onlyAppends_def
    by (rule exI [of _ "ls @ ls'"], rule exI [of _ "ds @ ds'"]) (use 1 2 in auto)
qed

lemma onlyAppends_ticked: "onlyAppends E a (ticked a)"
  unfolding onlyAppends_def by (rule exI [of _ "[]"]) simp

lemma onlyAppends_called: "onlyAppends E a (called c w a)"
  unfolding onlyAppends_def by (rule exI [of _ "[]"]) simp

lemma onlyAppends_appendData:
  "mustMarshal E l = Inr d \<Longrightarrow>
   Type l = SagaAbort \<or> Type l = CompensateStart \<or> Type l = CompensateEnd \<Longrightarrow>
   onlyAppends E a (appendData d a)"
  unfolding onlyAppends_def by (rule exI [of _ "[l]"], rule exI [of _ "[d]"]) simp

lemma Abort_onlyAppends: "Abort E n s st = Some (Inr st') \<Longrightarrow> onlyAppends E st st'"
  by (rule Abort_rel [where R = "onlyAppends E"])
    (rule onlyAppends_trans onlyAppends_refl onlyAppends_ticked onlyAppends_called
      onlyAppends_appendData; assumption)+

lemma moreCalls_refl: "moreCalls a a"
  and moreCalls_ticked: "moreCalls a (ticked a)"
  and moreCalls_appendData: "moreCalls a (appendData d a)"
  and moreCalls_called: "moreCalls a (called c w a)"
  by (simp_all add: moreCalls_def)

lemma moreCalls_trans: "moreCalls a b \<Longrightarrow> moreCalls b c \<Longrightarrow> moreCalls a c"
  by (auto simp: moreCalls_def)

lemma Abort_moreCalls: "Abort E n s st = Some (Inr st') \<Longrightarrow> moreCalls st st'"
  by (rule Abort_rel [where R = moreCalls and E = E])
    (rule moreCalls_trans moreCalls_refl moreCalls_ticked moreCalls_called
      moreCalls_appendData; assumption)+

lemma AbortLoop_moreCalls: "AbortLoop E n s logs k st = Some (Inr st') \<Longrightarrow> moreCalls st st'"
  by (rule AbortLoop_rel [where R = moreCalls and E = E and n = n and s = s])
    (rule Abort_moreCalls moreCalls_trans moreCalls_refl moreCalls_ticked moreCalls_called
      moreCalls_appendData; assumption)+

lemma compensate_moreCalls:
  "compensate E n s l st = Some (Inr (err, st')) \<Longrightarrow> moreCalls st st'"
  by (rule compensate_rel [where R = moreCalls and E = E and n = n and s = s])
    (rule Abort_moreCalls moreCalls_trans moreCalls_refl moreCalls_ticked moreCalls_called
      moreCalls_appendData; assumption)+


text \<open>
  Whenever an abort returns, it has called the compensation of every ActionStart entry
  that was in the log.
\<close>

lemma AbortLoop_calls_entry:
  assumes d: "mustUnmarshalLog E (logs ! i) = Inr l"
    and t: "Type l = ActionStart"
  shows "i < k \<Longrightarrow> AbortLoop E n s logs k st = Some (Inr st') \<Longrightarrow>
    \<exists>cs1 cs2. calls st' = calls st @ cs1 @ compensationCall E s l # cs2"
proof (induction k arbitrary: st)
  case 0
  then show ?case by simp
next
  case (Suc k)
  from Suc.prems obtain logger where
    lg: "mustUnmarshalLog E (logs ! k) = Inr logger"
    by (auto simp: AbortLoop_Suc_eq split: sum.splits)
  show ?case
  proof (cases "i = k")
    case True
    with d lg have eq: "logger = l" by simp
    with Suc.prems lg t obtain st1 where
      c: "compensate E n s l st = Some (Inr (None, st1))"
      and r: "AbortLoop E n s logs k st1 = Some (Inr st')"
      by (auto simp: AbortLoop_Suc_eq split: sum.splits option.splits if_splits)
    from c obtain d1 args w failed st4 d2 where
      u: "UnmarshalParam E (sec s) (Params l) = Inr args"
      and st4: "(if failed then
                 Abort E n s (called (CompensateCall (SubTxID l) (ctx s # args)) w
                                (appendData d1 (ticked st)))
               else Some (Inr (called (CompensateCall (SubTxID l) (ctx s # args)) w
                                 (appendData d1 (ticked st))))) = Some (Inr st4)"
      and st1: "st1 = appendData d2 (ticked st4)"
      unfolding compensate_eq by (auto split: sum.splits option.splits prod.splits)
    have "moreCalls (called (CompensateCall (SubTxID l) (ctx s # args)) w
                                (appendData d1 (ticked st))) st4"
      using st4 by (cases failed) (simp_all add: Abort_moreCalls moreCalls_refl)
    then obtain cs where "calls st4 = calls st @ compensationCall E s l # cs"
      by (auto simp: moreCalls_def compensationCall_def u)
    then have "calls st1 = calls st @ compensationCall E s l # cs"
      by (simp add: st1)
    moreover from AbortLoop_moreCalls [OF r] obtain cs' where "calls st' = calls st1 @ cs'"
      by (auto simp: moreCalls_def)
    ultimately show ?thesis
      by (intro exI [of _ "[]"] exI [of _ "cs @ cs'"]) simp
  next
    case False
    with Suc.prems have ik: "i < k" by simp
    show ?thesis
    proof (cases "Type logger = ActionStart")
      case True
      with Suc.prems lg obtain st1 where
        c: "compensate E n s logger st = Some (Inr (None, st1))"
        and r: "AbortLoop E n s logs k st1 = Some (Inr st')"
        by (auto simp: AbortLoop_Suc_eq split: sum.splits option.splits if_splits)
      from compensate_moreCalls [OF c] obtain cs where c1: "calls st1 = calls st @ cs"
        by (auto simp: moreCalls_def)
      from Suc.IH [OF ik r] obtain cs1 cs2 where
        "calls st' = calls st1 @ cs1 @ compensationCall E s l # cs2"
        by blast
      with c1 show ?thesis
        by (intro exI [of _ "cs @ cs1"] exI [of _ cs2]) simp
    next
      case False
      with Suc.prems lg have "AbortLoop E n s logs k st = Some (Inr st')"
        by (simp add: AbortLoop_Suc_eq)
      from Suc.IH [OF ik this] show ?thesis .
    qed
  qed
qed

lemma Abort_calls_entry:
  assumes a: "Abort E n s st = Some (Inr st')"
    and i: "i < length (data (storage st))"
    and d: "mustUnmarshalLog E (data (storage st) ! i) = Inr l"
    and t: "Type l = ActionStart"
  shows "\<exists>cs1 cs2. calls st' = calls st @ cs1 @ compensationCall E s l # cs2"
proof (cases n)
  case 0
  with a show ?thesis by simp
next
  case (Suc m)
  with a obtain d0 where
    l: "AbortLoop E m s (data (storage st)) (length (data (storage st)))
              (appendData d0 (ticked st)) = Some (Inr st')"
    by (auto simp: Abort_Suc_eq split: sum.splits)
  from AbortLoop_calls_entry [OF d t i l] show ?thesis by simp
qed

section \<open>The scenarios, evaluated\<close>

lemmas scenario_defs =
  startSaga_def ExecSub_def EndSaga_def Abort.simps AbortLoop.simps compensate.simps
  timeNow_def writeLog_def AppendLog_def Lookup_def Cleanup_def NewMemStorage_def
  MustFindSubTxDef_def isReturnError_def IsNil_def
  appendData_def ticked_def called_def
  testEnv_def testSec_def testSaga_def testState_def initIt_def getDB_def testChain_def
  encLog_def decLog_def decType_def encNat.simps decNat_def digitChar_def digitVal_def

lemma afterForward_log:
  "data (storage afterForward) =
     [''0||'', ''1|1|deduce||sfoo|i+100'', ''2|11|deduce'', ''1|111|deposit||sbar|i+100'',
      ''2|1111|deposit'']"
  by (simp add: scenario_defs afterForward_def)

section \<open>Abort replays the compensations in reverse order\<close>


lemma replayCompensations_Cons_Some:
  assumes "replayCompensations E s (l # ls) w = Some w'"
  obtains args subDef result w1 where
    "UnmarshalParam E (sec s) (Params l) = Inr args"
    "MustFindSubTxDef (sec s) (SubTxID l) = Inr subDef"
    "compensateCall subDef (ctx s # args) w = Inr (result, w1)"
    "isReturnError result = Inr False"
    "replayCompensations E s ls w1 = Some w'"
  using assms by (auto split: sum.splits prod.splits if_splits)

lemma compensate_step:
  assumes u: "UnmarshalParam E (sec s) (Params l) = Inr args"
    and f: "MustFindSubTxDef (sec s) (SubTxID l) = Inr subDef"
    and c: "compensateCall subDef (ctx s # args) (world st) = Inr (result, w1)"
    and e: "isReturnError result = Inr False"
    and m1: "mustMarshal E \<lparr>Type = CompensateStart, SubTxID = SubTxID l,
               Time = clock E (tick st), Params = None\<rparr> = Inr d1"
    and m2: "mustMarshal E \<lparr>Type = CompensateEnd, SubTxID = SubTxID l,
               Time = clock E (Suc (tick st)), Params = None\<rparr> = Inr d2"
  shows "compensate E n s l st =
           Some (Inr (None, appendData d2 (ticked (called (compensationCall E s l) w1
                                                    (appendData d1 (ticked st))))))"
  by (simp add: compensate_eq u f c e m1 m2 compensationCall_def)

lemma AbortLoop_replays:
  assumes dec: "map (mustUnmarshalLog E) logs = map Inr entries"
  shows "k \<le> length logs \<Longrightarrow>
    replayCompensations E s (replayed (take k entries)) (world st) = Some w' \<Longrightarrow>
    map (mustMarshal E) (compensationEntries E (tick st) (replayed (take k entries))) =
      map Inr ds \<Longrightarrow>
    \<exists>st'. AbortLoop E n s logs k st = Some (Inr st')
      \<and> data (storage st') = data (storage st) @ ds
      \<and> world st' = w'
      \<and> tick st' = tick st + 2 * length (replayed (take k entries))
      \<and> calls st' = calls st @ map (compensationCall E s) (replayed (take k entries))"
proof (induction k arbitrary: st ds)
  case 0
  then show ?case by (simp add: replayed_def)
next
  case (Suc k)
  from dec have len: "length entries = length logs"
    by (metis length_map)
  from Suc.prems have k: "k < length logs" by simp
  from dec k have d: "mustUnmarshalLog E (logs ! k) = Inr (entries ! k)"
    by (metis len nth_map)
  from k len have tk: "take (Suc k) entries = take k entries @ [entries ! k]"
    by (simp add: take_Suc_conv_app_nth)
  let ?e = "entries ! k"
  let ?ls = "replayed (take k entries)"
  show ?case
  proof (cases "Type ?e = ActionStart")
    case True
    then have rp: "replayed (take (Suc k) entries) = ?e # ?ls"
      by (simp add: tk replayed_def)
    from Suc.prems(2) obtain args subDef result w1 where
      u: "UnmarshalParam E (sec s) (Params ?e) = Inr args"
      and f: "MustFindSubTxDef (sec s) (SubTxID ?e) = Inr subDef"
      and c: "compensateCall subDef (ctx s # args) (world st) = Inr (result, w1)"
      and e: "isReturnError result = Inr False"
      and r: "replayCompensations E s ?ls w1 = Some w'"
      unfolding rp by (rule replayCompensations_Cons_Some)
    from Suc.prems(3) obtain d1 d2 ds' where
      ds: "ds = d1 # d2 # ds'"
      and m1: "mustMarshal E \<lparr>Type = CompensateStart, SubTxID = SubTxID ?e,
               Time = clock E (tick st), Params = None\<rparr> = Inr d1"
      and m2: "mustMarshal E \<lparr>Type = CompensateEnd, SubTxID = SubTxID ?e,
               Time = clock E (Suc (tick st)), Params = None\<rparr> = Inr d2"
      and ms: "map (mustMarshal E) (compensationEntries E (Suc (Suc (tick st))) ?ls) =
                 map Inr ds'"
      unfolding rp by (auto simp: Cons_eq_map_conv)
    let ?st1 = "appendData d2 (ticked (called (compensationCall E s ?e) w1
                                          (appendData d1 (ticked st))))"
    have cs: "compensate E n s ?e st = Some (Inr (None, ?st1))"
      by (rule compensate_step [OF u f c e m1 m2])
    from k have "k \<le> length logs" by simp
    from Suc.IH [OF this, of ?st1 ds'] r ms obtain st' where
      "AbortLoop E n s logs k ?st1 = Some (Inr st')"
      "data (storage st') = data (storage ?st1) @ ds'"
      "world st' = w'"
      "tick st' = tick ?st1 + 2 * length ?ls"
      "calls st' = calls ?st1 @ map (compensationCall E s) ?ls"
      by auto
    with True show ?thesis
      by (simp add: AbortLoop_Suc_eq d cs rp ds)
  next
    case False
    then have rp: "replayed (take (Suc k) entries) = ?ls"
      by (simp add: tk replayed_def)
    from k have "k \<le> length logs" by simp
    from Suc.IH [OF this, of st ds] Suc.prems(2,3) obtain st' where
      "AbortLoop E n s logs k st = Some (Inr st')"
      "data (storage st') = data (storage st) @ ds"
      "world st' = w'"
      "tick st' = tick st + 2 * length ?ls"
      "calls st' = calls st @ map (compensationCall E s) ?ls"
      unfolding rp by auto
    with False show ?thesis
      by (simp add: AbortLoop_Suc_eq d rp)
  qed
qed

lemma Abort_replays:
  assumes dec: "map (mustUnmarshalLog E) (data (storage st)) = map Inr entries"
    and run: "replayCompensations E s (replayed entries) (world st) = Some w'"
    and mar: "map (mustMarshal E) (abortEntries E (tick st) (replayed entries)) = map Inr ds"
  shows "\<exists>st'. Abort E (Suc n) s st = Some (Inr st')
      \<and> data (storage st') = data (storage st) @ ds
      \<and> world st' = w'
      \<and> tick st' = Suc (tick st) + 2 * length (replayed entries)
      \<and> calls st' = calls st @ map (compensationCall E s) (replayed entries)"
proof -
  from dec have len: "length entries = length (data (storage st))"
    by (metis length_map)
  from mar obtain d ds' where
    ds: "ds = d # ds'"
    and m: "mustMarshal E \<lparr>Type = SagaAbort, SubTxID = '''', Time = clock E (tick st),
          Params = None\<rparr> = Inr d"
    and ms: "map (mustMarshal E) (compensationEntries E (Suc (tick st)) (replayed entries)) =
               map Inr ds'"
    by (auto simp: abortEntries_def Cons_eq_map_conv)
  let ?st2 = "appendData d (ticked st)"
  from AbortLoop_replays [OF dec, of "length (data (storage st))" s ?st2 w' ds' n] run ms
  obtain st' where
    "AbortLoop E n s (data (storage st)) (length (data (storage st))) ?st2 = Some (Inr st')"
    "data (storage st') = data (storage ?st2) @ ds'"
    "world st' = w'"
    "tick st' = tick ?st2 + 2 * length (replayed entries)"
    "calls st' = calls ?st2 @ map (compensationCall E s) (replayed entries)"
    by (auto simp: len)
  then show ?thesis
    by (simp add: Abort_Suc_eq m ds)
qed

text \<open>
  Claim C3. Let the records of the log decode to \<open>entries\<close>, let no compensation fail
  when the compensations of the ActionStart entries are called latest first from the
  world of the state, which leaves the world \<open>w'\<close>, and let the entries that the abort
  writes encode to \<open>ds\<close>. Then \<^verbatim>\<open>Abort\<close> returns. The calls it has made are exactly
  the compensations of the ActionStart entries, each once, in the reverse of their order in
  the log, each with the context and the parameters decoded from its own entry; the world
  it leaves is \<open>w'\<close>, the world that these calls produce one after the other; and the log
  has grown by \<open>ds\<close>, a SagaAbort record and a CompensateStart and a CompensateEnd record
  for each of the calls.
\<close>

theorem C3_Abort_reverse_order:
  assumes dec: "map (mustUnmarshalLog E) (data (storage st)) = map Inr entries"
    and run: "replayCompensations E s (replayed entries) (world st) = Some w'"
    and mar: "map (mustMarshal E) (abortEntries E (tick st) (replayed entries)) = map Inr ds"
  shows "\<exists>st'. Abort E (Suc n) s st = Some (Inr st')
      \<and> calls st' = calls st @ map (compensationCall E s)
                         (rev (filter (\<lambda>l. Type l = ActionStart) entries))
      \<and> world st' = w'
      \<and> data (storage st') = data (storage st) @ ds
      \<and> tick st' = Suc (tick st) + 2 * length (filter (\<lambda>l. Type l = ActionStart) entries)"
  using Abort_replays [OF dec run mar, of n] by (auto simp: replayed_def)

theorem C3_Abort_reverse_order_witness:
  "map (mustUnmarshalLog testEnv) (data (storage flakyCalm)) = map Inr forwardEntries
   \<and> map (mustMarshal testEnv) (abortEntries testEnv (tick flakyCalm) (replayed forwardEntries)) =
       map Inr [''3|11111|'', ''4|111111|deposit'', ''5|1111111|deposit'',
                ''4|11111111|deduce'', ''5|111111111|deduce'']
   \<and> (\<exists>w'. replayCompensations testEnv flakySaga (replayed forwardEntries) (world flakyCalm) =
              Some w'
          \<and> getDB (memDB w') ''foo'' = 200 \<and> getDB (memDB w') ''bar'' = 0)
   \<and> getDB (memDB (world flakyCalm)) ''foo'' = 100
   \<and> getDB (memDB (world flakyCalm)) ''bar'' = 100
   \<and> callsOf (Abort testEnv (Suc 0) flakySaga flakyCalm) =
       Some (calls flakyCalm @
             [CompensateCall ''deposit'' [Ctx, StrV ''bar'', IntV 100],
              CompensateCall ''deduce'' [Ctx, StrV ''foo'', IntV 100]])
   \<and> logOf (Abort testEnv (Suc 0) flakySaga flakyCalm) =
       Some (data (storage flakyCalm) @
             [''3|11111|'', ''4|111111|deposit'', ''5|1111111|deposit'',
              ''4|11111111|deduce'', ''5|111111111|deduce''])
   \<and> balanceOf (Abort testEnv (Suc 0) flakySaga flakyCalm) ''foo'' = Some 200
   \<and> balanceOf (Abort testEnv (Suc 0) flakySaga flakyCalm) ''bar'' = Some 0"
proof -
  let ?ds = "[''3|11111|'', ''4|111111|deposit'', ''5|1111111|deposit'',
              ''4|11111111|deduce'', ''5|111111111|deduce'']"
  have lg: "data (storage flakyCalm) =
      [''0||'', ''1|1|deduce||sfoo|i+100'', ''2|11|deduce'', ''1|111|deposit||sbar|i+100'',
       ''2|1111|deposit'']"
    by (simp add: scenario_defs flakySec_def flakySaga_def flakyState_def flakyForward_def
        flakyCalm_def)
  have dec: "map (mustUnmarshalLog testEnv) (data (storage flakyCalm)) = map Inr forwardEntries"
    by (simp add: lg) (simp add: testEnv_def decLog_def decType_def forwardEntries_def)
  have rp: "replayed forwardEntries =
      [\<lparr>Type = ActionStart, SubTxID = ''deposit'', Time = 3, Params = Some [''sbar'', ''i+100'']\<rparr>,
       \<lparr>Type = ActionStart, SubTxID = ''deduce'', Time = 1, Params = Some [''sfoo'', ''i+100'']\<rparr>]"
    by (simp add: replayed_def forwardEntries_def)
  have tk: "tick flakyCalm = Suc (Suc (Suc (Suc (Suc 0))))"
    by (simp add: scenario_defs flakySec_def flakySaga_def flakyState_def flakyForward_def
        flakyCalm_def)
  have mar: "map (mustMarshal testEnv) (abortEntries testEnv (tick flakyCalm) (replayed forwardEntries)) =
       map Inr ?ds"
    by (simp add: rp tk abortEntries_def testEnv_def encLog_def)
  have b: "getDB (memDB (world flakyCalm)) ''foo'' = 100"
    "getDB (memDB (world flakyCalm)) ''bar'' = 100"
    by (simp_all add: scenario_defs flakySec_def flakySaga_def flakyState_def flakyForward_def
        flakyCalm_def)
  have "\<exists>w'. replayCompensations testEnv flakySaga (replayed forwardEntries) (world flakyCalm) =
              Some w'
          \<and> getDB (memDB w') ''foo'' = 200 \<and> getDB (memDB w') ''bar'' = 0"
    by (simp add: rp scenario_defs flakySec_def flakySaga_def flakyState_def flakyForward_def
        flakyCalm_def)
  then obtain w' where
    run: "replayCompensations testEnv flakySaga (replayed forwardEntries) (world flakyCalm) = Some w'"
    and w: "getDB (memDB w') ''foo'' = 200" "getDB (memDB w') ''bar'' = 0"
    by blast
  from C3_Abort_reverse_order [OF dec run mar, of 0] obtain st' where
    a: "Abort testEnv (Suc 0) flakySaga flakyCalm = Some (Inr st')"
    and c: "calls st' = calls flakyCalm @ map (compensationCall testEnv flakySaga)
              (rev (filter (\<lambda>l. Type l = ActionStart) forwardEntries))"
    and ww: "world st' = w'"
    and d: "data (storage st') = data (storage flakyCalm) @ ?ds"
    by blast
  have cc: "map (compensationCall testEnv flakySaga)
              (rev (filter (\<lambda>l. Type l = ActionStart) forwardEntries)) =
      [CompensateCall ''deposit'' [Ctx, StrV ''bar'', IntV 100],
       CompensateCall ''deduce'' [Ctx, StrV ''foo'', IntV 100]]"
    by (simp add: forwardEntries_def compensationCall_def testEnv_def flakySaga_def decNat_def
        digitVal_def)
  from dec mar run w b a c ww d cc show ?thesis
    by (simp add: callsOf_def logOf_def balanceOf_def)
qed

section \<open>Abort keeps the log\<close>

text \<open>
  Claim C4. Abort does not clear the log. When Abort returns, the log is the log from
  before the abort, unchanged and in the same order, followed by the encoding of a
  SagaAbort entry and then by encodings of entries of the kinds SagaAbort,
  CompensateStart and CompensateEnd only; in particular it is not empty. This holds for
  every depth of nested aborts.
\<close>

theorem C4_Abort_keeps_log:
  assumes a: "Abort E n s st = Some (Inr st')"
  shows "\<exists>l0 d0 ls ds.
      data (storage st') = data (storage st) @ d0 # ds
      \<and> mustMarshal E l0 = Inr d0 \<and> Type l0 = SagaAbort
      \<and> map (mustMarshal E) ls = map Inr ds
      \<and> (\<forall>l \<in> set ls. Type l = SagaAbort \<or> Type l = CompensateStart \<or> Type l = CompensateEnd)"
proof (cases n)
  case 0
  with a show ?thesis by simp
next
  case (Suc m)
  with a obtain d where
    m: "mustMarshal E \<lparr>Type = SagaAbort, SubTxID = '''', Time = clock E (tick st),
          Params = None\<rparr> = Inr d"
    and l: "AbortLoop E m s (data (storage st)) (length (data (storage st)))
              (appendData d (ticked st)) = Some (Inr st')"
    by (auto simp: Abort_Suc_eq split: sum.splits)
  have "onlyAppends E (appendData d (ticked st)) st'"
  proof (rule AbortLoop_rel [where R = "onlyAppends E" and E = E and n = m and s = s])
    show "AbortLoop E m s (data (storage st)) (length (data (storage st)))
            (appendData d (ticked st)) = Some (Inr st')"
      by (rule l)
  qed (rule Abort_onlyAppends onlyAppends_trans onlyAppends_refl onlyAppends_ticked
        onlyAppends_called onlyAppends_appendData; assumption)+
  then obtain ls ds where
    "data (storage st') = (data (storage st) @ [d]) @ ds"
    "map (mustMarshal E) ls = map Inr ds"
    "\<forall>l \<in> set ls. Type l = SagaAbort \<or> Type l = CompensateStart \<or> Type l = CompensateEnd"
    unfolding onlyAppends_def by auto
  with m show ?thesis
    by (intro exI [of _ "\<lparr>Type = SagaAbort, SubTxID = '''', Time = clock E (tick st), Params = None\<rparr>"]
        exI [of _ d] exI [of _ ls] exI [of _ ds]) simp
qed

theorem C4_Abort_keeps_log_witness:
  "\<exists>st' d0 ds.
     Abort testEnv (Suc 0) testSaga afterForward = Some (Inr st')
     \<and> data (storage st') =
         [''0||'', ''1|1|deduce||sfoo|i+100'', ''2|11|deduce'', ''1|111|deposit||sbar|i+100'',
          ''2|1111|deposit''] @ d0 # ds"
proof -
  have "\<exists>st'. Abort testEnv (Suc 0) testSaga afterForward = Some (Inr st')"
    by (simp add: scenario_defs afterForward_def)
  then obtain st' where a: "Abort testEnv (Suc 0) testSaga afterForward = Some (Inr st')" ..
  from C4_Abort_keeps_log [OF a] obtain d0 ds where
    "data (storage st') = data (storage afterForward) @ d0 # ds"
    by blast
  with a show ?thesis
    by (simp add: afterForward_log)
qed

section \<open>An action that never completed is compensated\<close>







section \<open>After an action has failed\<close>

text \<open>
  Claim C1 does not hold of \<^verbatim>\<open>EndSaga\<close>. In the run of \<^verbatim>\<open>TestDepositFail\<close> the
  action of the deposit reports failure and the saga aborts, which leaves nine records in
  the log; the \<^verbatim>\<open>EndSaga()\<close> that follows in the chain is not a no-op, it empties
  the log, as the test asserts.
\<close>

theorem C1_EndSaga_after_abort_counterexample:
  "logOf (testChain (Suc 0) DepositFail) =
     Some [''0||'', ''1|1|deduce||sfoo|i+100'', ''2|11|deduce'', ''1|111|deposit||sbar|i+100'',
           ''3|1111|'', ''4|11111|deposit'', ''5|111111|deposit'', ''4|1111111|deduce'',
           ''5|11111111|deduce'']
   \<and> map_option kindsOf (logOf (testChain (Suc 0) DepositFail)) =
     Some [Inr (SagaStart, []), Inr (ActionStart, ''deduce''), Inr (ActionEnd, ''deduce''),
           Inr (ActionStart, ''deposit''), Inr (SagaAbort, []),
           Inr (CompensateStart, ''deposit''), Inr (CompensateEnd, ''deposit''),
           Inr (CompensateStart, ''deduce''), Inr (CompensateEnd, ''deduce'')]
   \<and> testRun (Suc 0) DepositFail =
       map_option (case_sum Inl (EndSaga testEnv testSaga)) (testChain (Suc 0) DepositFail)
   \<and> logOf (testRun (Suc 0) DepositFail) = Some []
   \<and> logOf (testRun (Suc 0) DepositFail) \<noteq> logOf (testChain (Suc 0) DepositFail)"
  by (simp add: scenario_defs testRun_def logOf_def kindsOf_def)

text \<open>
  Claim C1, as the code has it. When the action of an \<^verbatim>\<open>ExecSub\<close> call reports
  failure, \<^verbatim>\<open>ExecSub\<close> is the call of \<^verbatim>\<open>Abort\<close> on the state that the action
  left, with the ActionStart entry in the log: it returns what \<^verbatim>\<open>Abort\<close> returns and
  writes no ActionEnd entry, since all that is appended after the ActionStart entry are
  entries of the kinds that an abort writes. The saga keeps no record of having aborted:
  a following \<^verbatim>\<open>EndSaga\<close> appends its SagaEnd entry and clears the log, which was not
  empty, so it is not a no-op.
\<close>

theorem C1_failed_action_aborts:
  assumes f: "MustFindSubTxDef (sec s) subTxID = Inr subTxDef"
    and p: "MarshalParam E (sec s) args = Inr ps"
    and m: "mustMarshal E \<lparr>Type = ActionStart, SubTxID = subTxID, Time = clock E (tick st),
              Params = Some ps\<rparr> = Inr d"
    and c: "actionCall subTxDef (ctx s # args) (world st) = Inr (result, w)"
    and e: "isReturnError result = Inr True"
  shows "ExecSub E fuel s subTxID args st =
           Abort E fuel s (called (ActionCall subTxID (ctx s # args)) w (appendData d (ticked st)))
    \<and> (ExecSub E fuel s subTxID args st = Some (Inr st') \<longrightarrow>
          onlyAppends E (appendData d (ticked st)) st'
          \<and> data (storage st') \<noteq> []
          \<and> (mustMarshal E \<lparr>Type = SagaEnd, SubTxID = '''', Time = clock E (tick st'),
                Params = None\<rparr> = Inr d' \<longrightarrow>
               EndSaga E s st' = Inr ((ticked st')\<lparr>storage := (storage st')\<lparr>data := []\<rparr>\<rparr>))
          \<and> (EndSaga E s st' = Inr st'' \<longrightarrow> data (storage st'') = [] \<and> st'' \<noteq> st'))"
proof -
  let ?a = "called (ActionCall subTxID (ctx s # args)) w (appendData d (ticked st))"
  have eq: "ExecSub E fuel s subTxID args st = Abort E fuel s ?a"
    by (simp add: ExecSub_eq f p m c e)
  moreover have "onlyAppends E (appendData d (ticked st)) st'"
    and "data (storage st') \<noteq> []"
    and "EndSaga E s st' = Inr st'' \<longrightarrow> data (storage st'') = [] \<and> st'' \<noteq> st'"
    if r: "ExecSub E fuel s subTxID args st = Some (Inr st')"
  proof -
    from r eq have "onlyAppends E ?a st'"
      by (simp add: Abort_onlyAppends)
    moreover have "onlyAppends E (appendData d (ticked st)) ?a"
      by (rule onlyAppends_called)
    ultimately show o: "onlyAppends E (appendData d (ticked st)) st'"
      by (rule onlyAppends_trans [rotated])
    then show n: "data (storage st') \<noteq> []"
      by (auto simp: onlyAppends_def)
    have "data (storage st'') = []" if "EndSaga E s st' = Inr st''"
      using that by (auto simp: EndSaga_eq Cleanup_def split: sum.splits)
    with n show "EndSaga E s st' = Inr st'' \<longrightarrow> data (storage st'') = [] \<and> st'' \<noteq> st'"
      by auto
  qed
  moreover have "EndSaga E s st' = Inr ((ticked st')\<lparr>storage := (storage st')\<lparr>data := []\<rparr>\<rparr>)"
    if "mustMarshal E \<lparr>Type = SagaEnd, SubTxID = '''', Time = clock E (tick st'),
                Params = None\<rparr> = Inr d'"
    using that by (simp add: EndSaga_eq Cleanup_def appendData_def ticked_def)
  ultimately show ?thesis by blast
qed

theorem C1_failed_action_aborts_witness:
  "MustFindSubTxDef (sec testSaga) ''deposit'' =
     Inr \<lparr>actionCall = DepositAccount, compensateCall = CompensateDeposit\<rparr>
   \<and> MarshalParam testEnv (sec testSaga) [StrV ''bar'', IntV 100] = Inr [''sbar'', ''i+100'']
   \<and> mustMarshal testEnv
        \<lparr>Type = ActionStart, SubTxID = ''deposit'',
         Time = clock testEnv (tick (afterDeduce DepositFail)),
         Params = Some [''sbar'', ''i+100'']\<rparr> = Inr ''1|111|deposit||sbar|i+100''
   \<and> DepositAccount (ctx testSaga # [StrV ''bar'', IntV 100]) (world (afterDeduce DepositFail)) =
        Inr ([VNonNil], world (afterDeduce DepositFail))
   \<and> isReturnError [VNonNil] = Inr True
   \<and> ExecSub testEnv (Suc 0) testSaga ''deposit'' [StrV ''bar'', IntV 100]
        (afterDeduce DepositFail) =
      Abort testEnv (Suc 0) testSaga depositInFlight
   \<and> (\<exists>st' st''.
        ExecSub testEnv (Suc 0) testSaga ''deposit'' [StrV ''bar'', IntV 100]
          (afterDeduce DepositFail) = Some (Inr st')
        \<and> data (storage st') \<noteq> []
        \<and> EndSaga testEnv testSaga st' = Inr st''
        \<and> data (storage st'') = [])"
proof -
  have h1: "MustFindSubTxDef (sec testSaga) ''deposit'' =
      Inr \<lparr>actionCall = DepositAccount, compensateCall = CompensateDeposit\<rparr>"
    by (simp add: MustFindSubTxDef_def testSaga_def testSec_def)
  have h2: "MarshalParam testEnv (sec testSaga) [StrV ''bar'', IntV 100] =
      Inr [''sbar'', ''i+100'']"
    by (simp add: testEnv_def encNat.simps digitChar_def)
  have h3: "mustMarshal testEnv
        \<lparr>Type = ActionStart, SubTxID = ''deposit'',
         Time = clock testEnv (tick (afterDeduce DepositFail)),
         Params = Some [''sbar'', ''i+100'']\<rparr> = Inr ''1|111|deposit||sbar|i+100''"
    by (simp add: scenario_defs afterDeduce_def depositInFlight_def)
  have h4: "actionCall \<lparr>actionCall = DepositAccount, compensateCall = CompensateDeposit\<rparr>
        (ctx testSaga # [StrV ''bar'', IntV 100]) (world (afterDeduce DepositFail)) =
      Inr ([VNonNil], world (afterDeduce DepositFail))"
    by (simp add: scenario_defs afterDeduce_def depositInFlight_def)
  have h5: "isReturnError [VNonNil] = Inr True"
    by (simp add: isReturnError_def IsNil_def)
  note T = C1_failed_action_aborts [OF h1 h2 h3 h4 h5]
  have fl: "called (ActionCall ''deposit'' (ctx testSaga # [StrV ''bar'', IntV 100]))
              (world (afterDeduce DepositFail))
              (appendData ''1|111|deposit||sbar|i+100'' (ticked (afterDeduce DepositFail))) =
            depositInFlight"
    by (simp add: scenario_defs afterDeduce_def depositInFlight_def)
  have "\<exists>st'. ExecSub testEnv (Suc 0) testSaga ''deposit'' [StrV ''bar'', IntV 100]
          (afterDeduce DepositFail) = Some (Inr st')"
    by (simp add: scenario_defs afterDeduce_def depositInFlight_def)
  then obtain st' where r: "ExecSub testEnv (Suc 0) testSaga ''deposit'' [StrV ''bar'', IntV 100]
          (afterDeduce DepositFail) = Some (Inr st')" ..
  have m: "mustMarshal testEnv \<lparr>Type = SagaEnd, SubTxID = '''', Time = clock testEnv (tick st'),
      Params = None\<rparr> =
      Inr (encLog \<lparr>Type = SagaEnd, SubTxID = '''', Time = clock testEnv (tick st'),
        Params = None\<rparr>)"
    by (simp add: testEnv_def)
  from T [of "Suc 0" st'] r m
  have n: "data (storage st') \<noteq> []"
    and e: "EndSaga testEnv testSaga st' = Inr ((ticked st')\<lparr>storage := (storage st')\<lparr>data := []\<rparr>\<rparr>)"
    by blast+
  from T [of "Suc 0"] fl
  have "ExecSub testEnv (Suc 0) testSaga ''deposit'' [StrV ''bar'', IntV 100]
        (afterDeduce DepositFail) = Abort testEnv (Suc 0) testSaga depositInFlight"
    by simp
  with h1 h2 h3 h4 h5 r n e show ?thesis
    by (intro conjI exI [of _ st'] exI [of _ "(ticked st')\<lparr>storage := (storage st')\<lparr>data := []\<rparr>\<rparr>"])
      simp_all
qed

text \<open>
  What a chained \<^verbatim>\<open>ExecSub\<close> does after an abort, in the same chain with the mode
  \<^verbatim>\<open>DeduceFail\<close>: the action of the deposit is called after the abort that the
  deduction caused, and its effect stays.
\<close>

lemma chained_ExecSub_after_abort:
  "callsOf (testChain (Suc 0) DeduceFail) =
     Some [ActionCall ''deduce'' [Ctx, StrV ''foo'', IntV 100],
           CompensateCall ''deduce'' [Ctx, StrV ''foo'', IntV 100],
           ActionCall ''deposit'' [Ctx, StrV ''bar'', IntV 100]]
   \<and> balanceOf (testChain (Suc 0) DeduceFail) ''bar'' = Some 100"
  by (simp add: scenario_defs callsOf_def balanceOf_def)

section \<open>A compensation that fails\<close>

lemmas flaky_defs =
  flakySec_def flakySaga_def flakyState_def flakyForward_def flakyAbort_def
  flakyAfterForward_def flakyReplay_def flakyFailed_def

text \<open>
  Claim C2 does not hold of a run of the code. Both actions succeed, \<^verbatim>\<open>Abort()\<close> is
  called, and the compensation of the deposit reports failure once. The nested abort
  replays the whole log: it compensates the deposit again and then the deduction. Back
  in \<^verbatim>\<open>compensate\<close>, a CompensateEnd entry is written for the compensation that
  failed, and the outer loop goes on to compensate the deduction a second time, so that
  the account \<open>foo\<close> ends at 300 where it started at 200.
\<close>

theorem C2_nested_abort_counterexample:
  "callsOf (flakyForward 1) =
     Some [ActionCall ''deduce'' [Ctx, StrV ''foo'', IntV 100],
           ActionCall ''deposit'' [Ctx, StrV ''bar'', IntV 100]]
   \<and> callsOf (flakyAbort (Suc (Suc 0)) 1) =
     Some [ActionCall ''deduce'' [Ctx, StrV ''foo'', IntV 100],
           ActionCall ''deposit'' [Ctx, StrV ''bar'', IntV 100],
           CompensateCall ''deposit'' [Ctx, StrV ''bar'', IntV 100],
           CompensateCall ''deposit'' [Ctx, StrV ''bar'', IntV 100],
           CompensateCall ''deduce'' [Ctx, StrV ''foo'', IntV 100],
           CompensateCall ''deduce'' [Ctx, StrV ''foo'', IntV 100]]
   \<and> map_option kindsOf (logOf (flakyAbort (Suc (Suc 0)) 1)) =
     Some [Inr (SagaStart, []), Inr (ActionStart, ''deduce''), Inr (ActionEnd, ''deduce''),
           Inr (ActionStart, ''deposit''), Inr (ActionEnd, ''deposit''),
           Inr (SagaAbort, []), Inr (CompensateStart, ''deposit''),
           Inr (SagaAbort, []), Inr (CompensateStart, ''deposit''),
           Inr (CompensateEnd, ''deposit''), Inr (CompensateStart, ''deduce''),
           Inr (CompensateEnd, ''deduce''), Inr (CompensateEnd, ''deposit''),
           Inr (CompensateStart, ''deduce''), Inr (CompensateEnd, ''deduce'')]
   \<and> balanceOf (flakyAbort (Suc (Suc 0)) 1) ''foo'' = Some 300
   \<and> balanceOf (flakyAbort (Suc (Suc 0)) 1) ''bar'' = Some 0"
  by (simp add: scenario_defs flaky_defs
      callsOf_def logOf_def kindsOf_def balanceOf_def)

text \<open>
  Claim C2, as the code has it. Let \<^verbatim>\<open>compensate\<close> have written its CompensateStart
  entry and called the compensation, which leaves the state \<open>st3\<close>. If the compensation
  reports failure, \<^verbatim>\<open>Abort\<close> is called on \<open>st3\<close>, whose log is the entire log written so
  far: \<^verbatim>\<open>compensate\<close> does not return unless that nested abort returns, and when it
  has returned, the nested abort has called the compensation of every ActionStart entry of
  that log, the entries compensated before and the entry whose compensation failed
  included. If the compensation reports success, no abort is called and the CompensateEnd
  entry is appended.
\<close>

theorem C2_failed_compensation_replays_log:
  assumes m1: "mustMarshal E \<lparr>Type = CompensateStart, SubTxID = SubTxID tlog,
                 Time = clock E (tick st), Params = None\<rparr> = Inr d1"
    and u: "UnmarshalParam E (sec s) (Params tlog) = Inr args"
    and f: "MustFindSubTxDef (sec s) (SubTxID tlog) = Inr subDef"
    and c: "compensateCall subDef (ctx s # args) (world st) = Inr (result, w)"
    and st3: "st3 = called (CompensateCall (SubTxID tlog) (ctx s # args)) w
                      (appendData d1 (ticked st))"
  shows "(isReturnError result = Inr True \<longrightarrow>
            fst (Lookup (storage st3)) = data (storage st) @ [d1]
            \<and> (Abort E n s st3 = None \<longrightarrow> compensate E n s tlog st = None)
            \<and> (compensate E n s tlog st = Some (Inr (err, st')) \<longrightarrow>
                 (\<exists>st4. Abort E n s st3 = Some (Inr st4) \<and> moreCalls st4 st'
                    \<and> (i < length (data (storage st) @ [d1])
                         \<and> mustUnmarshalLog E ((data (storage st) @ [d1]) ! i) = Inr l
                         \<and> Type l = ActionStart \<longrightarrow>
                        (\<exists>cs1 cs2. calls st4 =
                           calls st3 @ cs1 @ compensationCall E s l # cs2)))))
    \<and> (isReturnError result = Inr False
          \<and> mustMarshal E \<lparr>Type = CompensateEnd, SubTxID = SubTxID tlog,
               Time = clock E (Suc (tick st)), Params = None\<rparr> = Inr d2 \<longrightarrow>
        compensate E n s tlog st = Some (Inr (None, appendData d2 (ticked st3))))"
proof -
  have lk: "fst (Lookup (storage st3)) = data (storage st) @ [d1]"
    by (simp add: st3 Lookup_def)
  have ok: "compensate E n s tlog st = Some (Inr (None, appendData d2 (ticked st3)))"
    if "isReturnError result = Inr False"
      and "mustMarshal E \<lparr>Type = CompensateEnd, SubTxID = SubTxID tlog,
               Time = clock E (Suc (tick st)), Params = None\<rparr> = Inr d2"
    using that by (simp add: compensate_eq m1 u f c st3)
  have nn: "compensate E n s tlog st = None"
    if "isReturnError result = Inr True" and "Abort E n s st3 = None"
    using that by (simp add: compensate_eq m1 u f c st3)
  have re: "\<exists>st4. Abort E n s st3 = Some (Inr st4) \<and> moreCalls st4 st'
                    \<and> (i < length (data (storage st) @ [d1])
                         \<and> mustUnmarshalLog E ((data (storage st) @ [d1]) ! i) = Inr l
                         \<and> Type l = ActionStart \<longrightarrow>
                        (\<exists>cs1 cs2. calls st4 =
                           calls st3 @ cs1 @ compensationCall E s l # cs2))"
    if e: "isReturnError result = Inr True"
      and r: "compensate E n s tlog st = Some (Inr (err, st'))"
  proof -
    from r e obtain st4 d2' where
      a: "Abort E n s st3 = Some (Inr st4)"
      and s': "st' = appendData d2' (ticked st4)"
      by (auto simp: compensate_eq m1 u f c st3 split: sum.splits option.splits)
    have mc: "moreCalls st4 st'"
      by (simp add: s' moreCalls_def)
    have dt: "data (storage st3) = data (storage st) @ [d1]"
      by (simp add: st3)
    have "\<exists>cs1 cs2. calls st4 = calls st3 @ cs1 @ compensationCall E s l # cs2"
      if "i < length (data (storage st) @ [d1])"
        and "mustUnmarshalLog E ((data (storage st) @ [d1]) ! i) = Inr l"
        and "Type l = ActionStart"
      using Abort_calls_entry [OF a, of i l] that by (simp add: dt)
    with a mc show ?thesis by blast
  qed
  from lk ok nn re show ?thesis by blast
qed

theorem C2_failed_compensation_replays_log_witness:
  "mustMarshal testEnv
     \<lparr>Type = CompensateStart, SubTxID = ''deposit'', Time = clock testEnv (tick flakyReplay),
      Params = None\<rparr> = Inr ''4|111111|deposit''
   \<and> UnmarshalParam testEnv (sec flakySaga) (Some [''sbar'', ''i+100'']) =
        Inr [StrV ''bar'', IntV 100]
   \<and> MustFindSubTxDef (sec flakySaga) ''deposit'' =
        Inr \<lparr>actionCall = DepositAccount, compensateCall = FlakyCompensateDeposit\<rparr>
   \<and> FlakyCompensateDeposit (ctx flakySaga # [StrV ''bar'', IntV 100]) (world flakyReplay) =
        Inr ([VNonNil], (world flakyReplay)\<lparr>failsLeft := 0\<rparr>)
   \<and> isReturnError [VNonNil] = Inr True
   \<and> mustUnmarshalLog testEnv ((data (storage flakyReplay) @ [''4|111111|deposit'']) ! 3) =
        Inr \<lparr>Type = ActionStart, SubTxID = ''deposit'', Time = 3,
             Params = Some [''sbar'', ''i+100'']\<rparr>
   \<and> calls flakyFailed =
        [ActionCall ''deduce'' [Ctx, StrV ''foo'', IntV 100],
         ActionCall ''deposit'' [Ctx, StrV ''bar'', IntV 100],
         CompensateCall ''deposit'' [Ctx, StrV ''bar'', IntV 100]]
   \<and> (\<exists>st' st4 cs1 cs2.
        compensate testEnv (Suc 0) flakySaga
          \<lparr>Type = ActionStart, SubTxID = ''deposit'', Time = 3,
           Params = Some [''sbar'', ''i+100'']\<rparr> flakyReplay = Some (Inr (None, st'))
        \<and> Abort testEnv (Suc 0) flakySaga flakyFailed = Some (Inr st4)
        \<and> calls st4 = calls flakyFailed @ cs1 @
             CompensateCall ''deposit'' [Ctx, StrV ''bar'', IntV 100] # cs2)"
proof -
  let ?l = "\<lparr>Type = ActionStart, SubTxID = ''deposit'', Time = 3,
             Params = Some [''sbar'', ''i+100'']\<rparr> :: string list Log"
  have lg: "data (storage flakyReplay) =
      [''0||'', ''1|1|deduce||sfoo|i+100'', ''2|11|deduce'', ''1|111|deposit||sbar|i+100'',
       ''2|1111|deposit'', ''3|11111|'']"
    by (simp add: scenario_defs flaky_defs)
  have h1: "mustMarshal testEnv
     \<lparr>Type = CompensateStart, SubTxID = SubTxID ?l, Time = clock testEnv (tick flakyReplay),
      Params = None\<rparr> = Inr ''4|111111|deposit''"
    by (simp add: scenario_defs flaky_defs)
  have h2: "UnmarshalParam testEnv (sec flakySaga) (Params ?l) = Inr [StrV ''bar'', IntV 100]"
    by (simp add: testEnv_def decNat_def digitVal_def)
  have h3: "MustFindSubTxDef (sec flakySaga) (SubTxID ?l) =
        Inr \<lparr>actionCall = DepositAccount, compensateCall = FlakyCompensateDeposit\<rparr>"
    by (simp add: MustFindSubTxDef_def flakySaga_def flakySec_def)
  have h4: "compensateCall \<lparr>actionCall = DepositAccount, compensateCall = FlakyCompensateDeposit\<rparr>
      (ctx flakySaga # [StrV ''bar'', IntV 100]) (world flakyReplay) =
        Inr ([VNonNil], (world flakyReplay)\<lparr>failsLeft := 0\<rparr>)"
    by (simp add: scenario_defs flaky_defs)
  have h5: "flakyFailed =
      called (CompensateCall (SubTxID ?l) (ctx flakySaga # [StrV ''bar'', IntV 100]))
        ((world flakyReplay)\<lparr>failsLeft := 0\<rparr>)
        (appendData ''4|111111|deposit'' (ticked flakyReplay))"
    by (simp add: scenario_defs flaky_defs)
  have e: "isReturnError [VNonNil] = Inr True"
    by (simp add: isReturnError_def IsNil_def)
  have d: "mustUnmarshalLog testEnv ((data (storage flakyReplay) @ [''4|111111|deposit'']) ! 3) =
      Inr ?l"
    by (simp add: lg) (simp add: testEnv_def decLog_def decType_def)
  have cf: "calls flakyFailed =
        [ActionCall ''deduce'' [Ctx, StrV ''foo'', IntV 100],
         ActionCall ''deposit'' [Ctx, StrV ''bar'', IntV 100],
         CompensateCall ''deposit'' [Ctx, StrV ''bar'', IntV 100]]"
    by (simp add: scenario_defs flaky_defs)
  have "\<exists>st'. compensate testEnv (Suc 0) flakySaga ?l flakyReplay = Some (Inr (None, st'))"
    by (simp add: scenario_defs flaky_defs)
  then obtain st' where r: "compensate testEnv (Suc 0) flakySaga ?l flakyReplay =
      Some (Inr (None, st'))" ..
  have cc: "compensationCall testEnv flakySaga ?l =
      CompensateCall ''deposit'' [Ctx, StrV ''bar'', IntV 100]"
    by (simp add: compensationCall_def testEnv_def flakySaga_def decNat_def digitVal_def)
  from C2_failed_compensation_replays_log [OF h1 h2 h3 h4 h5, of "Suc 0" None st' 3 ?l]
    e r d lg
  obtain st4 cs1 cs2 where
    "Abort testEnv (Suc 0) flakySaga flakyFailed = Some (Inr st4)"
    "calls st4 = calls flakyFailed @ cs1 @ compensationCall testEnv flakySaga ?l # cs2"
    by auto
  with r cc h1 h2 h3 h4 e d cf show ?thesis
    by (intro conjI exI [of _ st'] exI [of _ st4] exI [of _ cs1] exI [of _ cs2]) simp_all
qed

section \<open>EndSaga\<close>

text \<open>
  Claim C6. \<^verbatim>\<open>EndSaga\<close> appends the encoding of a SagaEnd entry to the log and then
  clears the storage with \<^verbatim>\<open>Cleanup\<close>; it panics only if the entry cannot be
  encoded. Whenever it returns, \<^verbatim>\<open>Lookup\<close> on the saga's storage gives the empty
  sequence and a nil error, and the world and the calls are as before.
\<close>

theorem C6_EndSaga_clears_log:
  "(mustMarshal E \<lparr>Type = SagaEnd, SubTxID = '''', Time = clock E (tick st), Params = None\<rparr>
      = Inr d \<longrightarrow>
      EndSaga E s st =
        Inr ((appendData d (ticked st))
               \<lparr>storage := fst (Cleanup (storage (appendData d (ticked st))))\<rparr>))
   \<and> (mustMarshal E \<lparr>Type = SagaEnd, SubTxID = '''', Time = clock E (tick st), Params = None\<rparr>
      = Inl p \<longrightarrow> EndSaga E s st = Inl p)
   \<and> (EndSaga E s st = Inr st' \<longrightarrow>
        Lookup (storage st') = ([], None)
        \<and> world st' = world st \<and> calls st' = calls st)"
  by (auto simp: EndSaga_eq Cleanup_def Lookup_def split: sum.splits)

theorem C6_EndSaga_clears_log_witness:
  "mustMarshal testEnv
     \<lparr>Type = SagaEnd, SubTxID = '''', Time = clock testEnv (tick afterForward), Params = None\<rparr>
     = Inr ''6|11111|''
   \<and> (\<exists>st'. EndSaga testEnv testSaga afterForward = Inr st'
         \<and> Lookup (storage st') = ([], None))
   \<and> testRun 0 OK = Some (EndSaga testEnv testSaga afterForward)
   \<and> logOf (testRun 0 OK) = Some []
   \<and> balanceOf (testRun 0 OK) ''foo'' = Some 100
   \<and> balanceOf (testRun 0 OK) ''bar'' = Some 100"
proof -
  have m: "mustMarshal testEnv
     \<lparr>Type = SagaEnd, SubTxID = '''', Time = clock testEnv (tick afterForward), Params = None\<rparr>
     = Inr ''6|11111|''"
    by (simp add: scenario_defs afterForward_def testRun_def logOf_def balanceOf_def)
  note T = C6_EndSaga_clears_log [of testEnv afterForward "''6|11111|''" testSaga]
  from T m obtain st' where e: "EndSaga testEnv testSaga afterForward = Inr st'"
    by blast
  with T [of _ st'] have l: "Lookup (storage st') = ([], None)"
    by blast
  have r: "testRun 0 OK = Some (EndSaga testEnv testSaga afterForward)"
    by (simp add: scenario_defs afterForward_def testRun_def logOf_def balanceOf_def)
  have "balanceOf (testRun 0 OK) ''foo'' = Some 100" "balanceOf (testRun 0 OK) ''bar'' = Some 100"
    by (simp_all add: scenario_defs afterForward_def testRun_def logOf_def balanceOf_def)
  with m e l r show ?thesis
    by (auto simp: logOf_def Lookup_def)
qed

section \<open>When a call counts as failed\<close>



end
